theory Spec2Isabelle
  imports Complex_Main "HOL-Library.Char_ord" "HOL-Library.List_Lexorder" "HOL-Library.AList"
begin

section \<open>Values shared by all operations of \<open>ClusteringUtils\<close>\<close>

text \<open>
  A Python/NumPy float is either the sentinel \<open>nan\<close> or a finite double, which is
  the real number it denotes. Comparisons are exact, and those involving \<open>nan\<close> are
  false, as in IEEE arithmetic.
\<close>

datatype pyfloat = NaN | Fin real

fun fgt :: "pyfloat \<Rightarrow> pyfloat \<Rightarrow> bool" where
  "fgt (Fin a) (Fin b) = (a > b)"
| "fgt _ _ = False"

text \<open>The exceptions that the modelled code paths can raise.\<close>

datatype py_error =
    KeyError | ValueError | IndexError | TypeError | AttributeError
  | RuntimeError | FileNotFoundError | ParserError | LinAlgError | SystemExit
  | OverflowError

text \<open>
  The arithmetic of the numeric libraries is not the code's: it is taken from outside.
  \<open>fl\<close> rounds the exact result of one arithmetic operation on doubles to the double
  that the operation returns. The reductions of NumPy and pandas (\<open>np.sum\<close>, \<open>np.mean\<close>
  and \<open>np.median\<close> of an array or list, the \<open>mean\<close> of a column, the inner product of
  \<open>dot\<close>), the determinant and the inverse of \<open>np.linalg\<close> (\<open>None\<close> for the
  \<open>LinAlgError\<close> of a singular matrix), the quantile \<open>chi2.ppf\<close> of SciPy, the
  exception, if any, raised while the ellipse of the Mahalanobis plot is computed from the
  covariance and the cutoff and drawn, and the double that \<open>pd.read_csv\<close> returns for the
  text that \<open>to_csv\<close> wrote for a double, are each a field.
\<close>

record numerics =
  fl :: "real \<Rightarrow> real"
  np_sum :: "real list \<Rightarrow> real"
  np_mean :: "real list \<Rightarrow> real"
  np_median :: "real list \<Rightarrow> real"
  series_mean :: "real list \<Rightarrow> real"
  np_dot :: "real list \<Rightarrow> real list \<Rightarrow> real"
  np_linalg_det :: "real list list \<Rightarrow> real"
  np_linalg_inv :: "real list list \<Rightarrow> real list list option"
  chi2_ppf :: "real \<Rightarrow> nat \<Rightarrow> pyfloat"
  draw_ellipse :: "real list list \<Rightarrow> pyfloat \<Rightarrow> py_error option"
  read_csv_float :: "real \<Rightarrow> real"


section \<open>DistanceMetric\<close>

subsection \<open>\<open>compute_similarity_across_aligned_sequences\<close>\<close>

record pair_record =
  accession_1 :: string
  accession_2 :: string

text \<open>
  \<open>scipy.spatial.distance.hamming\<close>: the fraction of positions at which two vectors of
  the same shape differ, the number of such positions divided by the length; vectors of
  different shapes raise \<open>ValueError\<close>, and the mean over no positions is \<open>nan\<close>.
\<close>

definition distance_hamming :: "numerics \<Rightarrow> nat list \<Rightarrow> nat list \<Rightarrow> py_error + pyfloat" where
  "distance_hamming N u v =
     (if length u \<noteq> length v then Inl ValueError
      else if u = [] then Inr NaN
      else Inr (Fin (fl N (real (length (filter (\<lambda>(a, b). a \<noteq> b) (zip u v)))
                           / real (length u)))))"

text \<open>\<open>1 - h\<close> on floats.\<close>

fun one_minus :: "numerics \<Rightarrow> pyfloat \<Rightarrow> pyfloat" where
  "one_minus N (Fin h) = Fin (fl N (1 - h))"
| "one_minus N NaN = NaN"

definition compute_similarity_across_aligned_sequences ::
  "numerics \<Rightarrow> pair_record \<Rightarrow> (string \<rightharpoonup> nat list) \<Rightarrow> py_error + pyfloat" where
  "compute_similarity_across_aligned_sequences N record seq_to_token =
     (if accession_1 record = accession_2 record then Inr (Fin 1)
      else case seq_to_token (accession_1 record) of
             None \<Rightarrow> Inl KeyError
           | Some seq_1 \<Rightarrow>
               (case seq_to_token (accession_2 record) of
                  None \<Rightarrow> Inl KeyError
                | Some seq_2 \<Rightarrow>
                    (case distance_hamming N seq_1 seq_2 of
                       Inl e \<Rightarrow> Inl e
                     | Inr h \<Rightarrow> Inr (one_minus N h))))"

subsection \<open>\<open>get_pairwise_alignment_distance\<close>\<close>

text \<open>
  \<open>Levenshtein.distance\<close>: the least number of single-character insertions, deletions
  and substitutions that turn one string into the other.
\<close>

fun lev :: "'a list \<Rightarrow> 'a list \<Rightarrow> nat" where
  "lev [] ys = length ys"
| "lev (x # xs) [] = Suc (length xs)"
| "lev (x # xs) (y # ys) =
     min (Suc (lev xs (y # ys)))
         (min (Suc (lev (x # xs) ys))
              ((if x = y then 0 else 1) + lev xs ys))"

text \<open>
  \<open>float(lev(seq1, seq2) / np.max([len(seq1), len(seq2)]))\<close>. The divisor is a NumPy
  integer, so dividing by zero does not raise: \<open>0 / 0\<close> is \<open>nan\<close> (with a warning), and
  the divisor is zero only when both sequences are empty, where the edit distance is zero
  too. The \<open>except\<close> branch is reached only by arguments that are not strings, which the
  type of the model excludes. The quotient is the exact one: its rounding to a double is
  left out.
\<close>

definition get_pairwise_alignment_distance :: "string \<Rightarrow> string \<Rightarrow> pyfloat" where
  "get_pairwise_alignment_distance seq1 seq2 =
     (let m = max (length seq1) (length seq2)
      in if m = 0 then NaN else Fin (real (lev seq1 seq2) / real m))"

section \<open>RepresentativeSelector\<close>

text \<open>
  A row of the elements table. A missing sequence (\<open>NaN\<close> in the dataframe) is
  \<open>None\<close>.
\<close>

record element =
  accession :: string
  taxon_name :: string
  sequence :: "string option"

text \<open>A row of the all-pairs distance table.\<close>

record 'a distance_record =
  element_1 :: 'a
  element_2 :: 'a
  distance :: pyfloat

text \<open>
  \<open>records_data.loc[records_data["accession"] == elm]["sequence"].dropna().values[0]\<close>:
  the first sequence that is present among the rows of that accession; \<open>None\<close> stands
  for the \<open>IndexError\<close> of \<open>values[0]\<close> on an empty selection.
\<close>

definition first_sequence :: "string \<Rightarrow> element list \<Rightarrow> string option" where
  "first_sequence elm records_data =
     (case List.map_filter (\<lambda>r. if accession r = elm then sequence r else None) records_data of
        [] \<Rightarrow> None
      | s # _ \<Rightarrow> Some s)"

text \<open>\<open>get_distance\<close>: every exception of the two look-ups is caught and gives \<open>nan\<close>.\<close>

definition get_distance :: "string \<Rightarrow> string \<Rightarrow> element list \<Rightarrow> pyfloat" where
  "get_distance elm1 elm2 records_data =
     (case first_sequence elm1 records_data of
        None \<Rightarrow> NaN
      | Some elm1_seq \<Rightarrow>
          (case first_sequence elm2 records_data of
             None \<Rightarrow> NaN
           | Some elm2_seq \<Rightarrow> get_pairwise_alignment_distance elm1_seq elm2_seq))"

definition compute_pairwise_sequence_distances :: "element list \<Rightarrow> string distance_record list" where
  "compute_pairwise_sequence_distances elements =
     concat (map (\<lambda>elm1. map (\<lambda>elm2.
         \<lparr>element_1 = elm1, element_2 = elm2, distance = get_distance elm1 elm2 elements\<rparr>)
       (map accession elements)) (map accession elements))"

text \<open>The finite entries of a column, in order (\<open>skipna\<close>).\<close>

fun finite_values :: "pyfloat list \<Rightarrow> real list" where
  "finite_values [] = []"
| "finite_values (NaN # ds) = finite_values ds"
| "finite_values (Fin x # ds) = x # finite_values ds"

text \<open>
  \<open>elements_distances.groupby("element_1")["distance"].sum().reset_index()\<close>: one row per
  distinct value of \<open>element_1\<close>, in ascending order of the key (\<open>groupby\<close> sorts its
  keys), holding the sum of the distances of that key's rows, \<open>nan\<close> skipped. The sum is
  the exact one.
\<close>

definition groupby_element_1_sum :: "('a::linorder) distance_record list \<Rightarrow> ('a \<times> real) list" where
  "groupby_element_1_sum elements_distances =
     map (\<lambda>k. (k, sum_list (finite_values
                  (map distance (filter (\<lambda>r. element_1 r = k) elements_distances)))))
         (sort (remdups (map element_1 elements_distances)))"

text \<open>
  \<open>Series.argmin\<close> on a column with a finite entry: the position of the first
  occurrence of the least entry, \<open>nan\<close> skipped; \<open>None\<close> for a column without a finite
  entry.
\<close>

definition series_argmin :: "pyfloat list \<Rightarrow> nat option" where
  "series_argmin ds =
     (case finite_values ds of
        [] \<Rightarrow> None
      | v # vs \<Rightarrow> Some (length (takeWhile (\<lambda>d. d \<noteq> Fin (fold min vs v)) ds)))"

text \<open>
  \<open>get_centroid\<close>. The position is the \<open>argmin\<close> of the \<open>distance\<close> column of the
  all-pairs table \<open>elements_distances\<close>, as the source has it; \<open>iloc\<close> then reads the
  table of sums at that position and raises \<open>IndexError\<close> beyond its last row. On an
  empty column \<open>argmin\<close> raises \<open>ValueError\<close>; on a column of \<open>nan\<close> only it returns
  \<open>-1\<close> (pandas before 3.0), and \<open>iloc[-1]\<close> reads the last row of the sums.
\<close>

definition get_centroid :: "('a::linorder) distance_record list \<Rightarrow> py_error + 'a" where
  "get_centroid elements_distances =
     (let elements_sum_distances = groupby_element_1_sum elements_distances
      in case series_argmin (map distance elements_distances) of
           None \<Rightarrow>
             (if elements_distances = [] then Inl ValueError
              else Inr (fst (last elements_sum_distances)))
         | Some i \<Rightarrow>
             (if i < length elements_sum_distances
              then Inr (fst (elements_sum_distances ! i))
              else Inl IndexError))"

text \<open>
  The body of the loop of \<open>compute_clusters_representatives\<close> that chooses the
  representative of one cluster from its member rows. An empty cluster ends the process
  (\<open>exit(1)\<close>).
\<close>

definition cluster_representative :: "element list \<Rightarrow> py_error + string" where
  "cluster_representative cluster_members =
     (case cluster_members of
        [] \<Rightarrow> Inl SystemExit
      | [m] \<Rightarrow> Inr (accession m)
      | _ \<Rightarrow> get_centroid (compute_pairwise_sequence_distances cluster_members))"

text \<open>
  What the documentation of \<open>get_centroid\<close> and the specification describe: the keys
  whose summed distance is least, in the order of the table of sums.
\<close>

definition least_sum_keys :: "('a::linorder) distance_record list \<Rightarrow> 'a list" where
  "least_sum_keys elements_distances =
     (let totals = groupby_element_1_sum elements_distances
      in map fst (filter (\<lambda>p. list_all (\<lambda>q. snd p \<le> snd q) totals) totals))"

text \<open>The symmetric table on \<open>A\<close>, \<open>B\<close>, \<open>C\<close> with zero diagonal, in iteration order.\<close>

definition table_ABC :: "string distance_record list" where
  "table_ABC =
     [\<lparr>element_1 = ''A'', element_2 = ''A'', distance = Fin 0\<rparr>,
      \<lparr>element_1 = ''A'', element_2 = ''B'', distance = Fin (2 / 10)\<rparr>,
      \<lparr>element_1 = ''A'', element_2 = ''C'', distance = Fin (8 / 10)\<rparr>,
      \<lparr>element_1 = ''B'', element_2 = ''A'', distance = Fin (2 / 10)\<rparr>,
      \<lparr>element_1 = ''B'', element_2 = ''B'', distance = Fin 0\<rparr>,
      \<lparr>element_1 = ''B'', element_2 = ''C'', distance = Fin (6 / 10)\<rparr>,
      \<lparr>element_1 = ''C'', element_2 = ''A'', distance = Fin (8 / 10)\<rparr>,
      \<lparr>element_1 = ''C'', element_2 = ''B'', distance = Fin (6 / 10)\<rparr>,
      \<lparr>element_1 = ''C'', element_2 = ''C'', distance = Fin 0\<rparr>]"

text \<open>A cluster whose normalised edit distances are those of \<open>table_ABC\<close>.\<close>

definition cluster_ABC :: "element list" where
  "cluster_ABC =
     [\<lparr>accession = ''A'', taxon_name = ''t'', sequence = Some ''aaaaa''\<rparr>,
      \<lparr>accession = ''B'', taxon_name = ''t'', sequence = Some ''aaaab''\<rparr>,
      \<lparr>accession = ''C'', taxon_name = ''t'', sequence = Some ''abbbb''\<rparr>]"

section \<open>OutlierDetector\<close>

text \<open>
  The array \<open>data.to_numpy()\<close> of a numeric dataframe: \<open>ncols\<close> is \<open>data.shape[1]\<close>,
  and every row has that many finite entries. The diagnostic image that both detectors
  save is not part of the model; the reads of the first two columns that draw it are,
  since they raise on an array with fewer than two columns.
\<close>

record feature_matrix =
  ncols :: nat
  rows :: "real list list"

text \<open>What a detector returns: \<open>t.Union[t.List[int], float]\<close>, the float being \<open>np.nan\<close>.\<close>

datatype outliers = OutlierIndexes "nat list" | NanSentinel

definition column :: "feature_matrix \<Rightarrow> nat \<Rightarrow> real list" where
  "column data j = map (\<lambda>r. r ! j) (rows data)"

text \<open>\<open>np.mean(data, axis=0)\<close>; the mean of no rows is \<open>nan\<close> in every column.\<close>

definition np_mean_axis0 :: "numerics \<Rightarrow> feature_matrix \<Rightarrow> pyfloat list" where
  "np_mean_axis0 N data =
     map (\<lambda>j. if rows data = [] then NaN else Fin (np_mean N (column data j)))
         [0..<ncols data]"

text \<open>One entry of \<open>p1 - p2\<close>, and \<open>np.sum\<close> of an array, \<open>nan\<close> if an entry is.\<close>

fun fl_sub :: "numerics \<Rightarrow> pyfloat \<Rightarrow> pyfloat \<Rightarrow> pyfloat" where
  "fl_sub N (Fin a) (Fin b) = Fin (fl N (a - b))"
| "fl_sub N _ _ = NaN"

definition sum_of :: "numerics \<Rightarrow> pyfloat list \<Rightarrow> pyfloat" where
  "sum_of N xs = (if NaN \<in> set xs then NaN else Fin (np_sum N (finite_values xs)))"

text \<open>
  \<open>compute_outliers_with_euclidean_dist\<close>. The score of a row is \<open>np.sum(p1 - p2)\<close>,
  the cutoff is \<open>chi2.ppf(0.95, data.shape[1])\<close>, and the indices kept are those of
  \<open>np.where(distances > cutoff)\<close>. \<open>centroid[1]\<close> and \<open>data[:, 1]\<close> raise
  \<open>IndexError\<close> on fewer than two columns.
\<close>

definition compute_outliers_with_euclidean_dist ::
  "numerics \<Rightarrow> feature_matrix \<Rightarrow> py_error + outliers" where
  "compute_outliers_with_euclidean_dist N data =
     (let centroid = np_mean_axis0 N data;
          distances = map (\<lambda>val. sum_of N (map (\<lambda>j. fl_sub N (Fin (val ! j)) (centroid ! j))
                                               [0..<ncols data]))
                          (rows data);
          cutoff = chi2_ppf N (95 / 100) (ncols data);
          outlier_indexes = filter (\<lambda>i. fgt (distances ! i) cutoff) [0..<length distances]
      in if ncols data < 2 then Inl IndexError
         else Inr (OutlierIndexes outlier_indexes))"






section \<open>Files, paths and external tools\<close>

subsection \<open>String operations of Python\<close>

text \<open>
  \<open>str.replace(old, new)\<close> for a non-empty \<open>old\<close>: the occurrences are replaced from
  left to right, without overlap.
\<close>

function replace :: "string \<Rightarrow> string \<Rightarrow> string \<Rightarrow> string" where
  "replace old new s =
     (if s = [] \<or> old = [] then s
      else if take (length old) s = old
           then new @ replace old new (drop (length old) s)
           else hd s # replace old new (tl s))"
  by pat_completeness auto
termination
  by (relation "measure (\<lambda>(old, new, s). length s)") auto

declare replace.simps [simp del]

text \<open>The number of occurrences that \<open>replace\<close> replaces.\<close>

function occurrences :: "string \<Rightarrow> string \<Rightarrow> nat" where
  "occurrences old s =
     (if s = [] \<or> old = [] then 0
      else if take (length old) s = old
           then Suc (occurrences old (drop (length old) s))
           else occurrences old (tl s))"
  by pat_completeness auto
termination
  by (relation "measure (\<lambda>(old, s). length s)") auto

declare occurrences.simps [simp del]

text \<open>\<open>os.path.basename\<close>: what follows the last slash.\<close>

definition basename :: "string \<Rightarrow> string" where
  "basename p = rev (takeWhile (\<lambda>c. c \<noteq> CHR ''/'') (rev p))"

definition is_digit :: "char \<Rightarrow> bool" where
  "is_digit c = (c \<in> set ''0123456789'')"

definition digit_value :: "char \<Rightarrow> nat" where
  "digit_value c = length (takeWhile (\<lambda>d. d \<noteq> c) ''0123456789'')"

definition digits_value :: "string \<Rightarrow> nat" where
  "digits_value ds = foldl (\<lambda>a c. 10 * a + digit_value c) 0 ds"

text \<open>
  One match of the pattern \<open>(\d+\.\d*)%\<close> at the head of a string: the value of
  \<open>float(match.group(1))\<close> and the length of the match. Both runs of digits are greedy,
  and giving a digit back never helps, since the next character wanted is not a digit.
\<close>

definition match_percentage :: "string \<Rightarrow> (real \<times> nat) option" where
  "match_percentage s =
     (let whole = takeWhile is_digit s; r1 = dropWhile is_digit s
      in if whole = [] then None
         else case r1 of
                [] \<Rightarrow> None
              | c # r2 \<Rightarrow>
                  (if c \<noteq> CHR ''.'' then None
                   else let frac = takeWhile is_digit r2; r3 = dropWhile is_digit r2
                        in case r3 of
                             [] \<Rightarrow> None
                           | c' # _ \<Rightarrow>
                               (if c' \<noteq> CHR ''%'' then None
                                else Some (real (digits_value (whole @ frac)) / 10 ^ length frac,
                                           length whole + length frac + 2))))"

text \<open>
  \<open>similarity_regex.finditer\<close>: the matches from left to right, without overlap; the
  first argument counts the characters of the last match that are still to be skipped.
\<close>

fun finditer_percentage :: "nat \<Rightarrow> string \<Rightarrow> real list" where
  "finditer_percentage k [] = []"
| "finditer_percentage (Suc k) (c # cs) = finditer_percentage k cs"
| "finditer_percentage 0 (c # cs) =
     (case match_percentage (c # cs) of
        Some (v, len) \<Rightarrow> v # finditer_percentage (len - 1) cs
      | None \<Rightarrow> finditer_percentage 0 cs)"

subsection \<open>The file system\<close>

text \<open>
  A file holds what the code writes to it or parses from it: the records of a FASTA
  file, the rows of the similarity table (a CSV file with the columns \<open>accession_1\<close>,
  \<open>accession_2\<close>, \<open>similarity\<close>) as \<open>to_csv\<close> wrote them, a pickled dictionary, or
  text. Two table files of the same rows have the same bytes; what reading a table gives
  for a number is the parser's. The file system maps a path to the file there;
  directories are not tracked, so \<open>os.makedirs\<close> changes nothing. Reading a file of
  another kind than the one expected is reported as \<open>ParserError\<close>.
\<close>

record seq_record =
  rec_id :: string
  rec_seq :: string

record similarity_row = pair_record +
  similarity :: pyfloat

datatype content =
    Fasta "seq_record list"
  | Csv "similarity_row list"
  | PickleNames "(string \<times> string) list"
  | PickleSimilarities "((string \<times> string) \<times> pyfloat) list"
  | Text string

type_synonym filesystem = "string \<rightharpoonup> content"

text \<open>\<open>list(SeqIO.parse(path, format="fasta"))\<close>.\<close>

definition SeqIO_parse :: "filesystem \<Rightarrow> string \<Rightarrow> py_error + seq_record list" where
  "SeqIO_parse fs path =
     (case fs path of
        None \<Rightarrow> Inl FileNotFoundError
      | Some (Fasta records) \<Rightarrow> Inr records
      | Some _ \<Rightarrow> Inl ParserError)"

text \<open>
  The commands given to \<open>os.system\<close>, by their arguments, and what the process gets
  from outside the code: the effect and exit status of a command, the working directory,
  the directory of the CD-HIT binaries in the settings, and the text of a float in an
  f-string.
\<close>

datatype command =
    Mafft string string
  | CdHit nat string string real nat string
  | CdHitEst string string string real nat nat string
  | RmR string

record externals =
  os_system :: "command \<Rightarrow> filesystem \<Rightarrow> int \<times> filesystem"
  getcwd :: string
  CDHIT_DIR :: string
  format_float :: "real \<Rightarrow> string"

subsection \<open>Summary statistics\<close>

definition nan4 :: "pyfloat list" where
  "nan4 = [NaN, NaN, NaN, NaN]"

text \<open>Mean, minimum, maximum and median of a non-empty Python list of floats.\<close>

definition summary_of_list :: "numerics \<Rightarrow> real list \<Rightarrow> pyfloat list" where
  "summary_of_list N xs =
     [Fin (np_mean N xs), Fin (fold min (tl xs) (hd xs)), Fin (fold max (tl xs) (hd xs)),
      Fin (np_median N xs)]"

text \<open>
  The same of a column of a dataframe: \<open>np.mean\<close>, \<open>np.min\<close> and \<open>np.max\<close> call the
  methods of the column, which skip \<open>nan\<close>; \<open>np.median\<close> converts the column to an
  array and gives \<open>nan\<close> if an entry is \<open>nan\<close>.
\<close>

definition summary_of_series :: "numerics \<Rightarrow> pyfloat list \<Rightarrow> pyfloat list" where
  "summary_of_series N ds =
     (let xs = finite_values ds
      in if xs = [] then nan4
         else [Fin (series_mean N xs), Fin (fold min (tl xs) (hd xs)),
               Fin (fold max (tl xs) (hd xs)),
               if NaN \<in> set ds then NaN else Fin (np_median N xs)])"

section \<open>SimilarityMatrixBuilder\<close>

subsection \<open>\<open>get_sequences_similarity_with_pairwise_alignments\<close>\<close>

text \<open>\<open>itertools.combinations(sequences, 2)\<close>.\<close>

fun combinations2 :: "'a list \<Rightarrow> ('a \<times> 'a) list" where
  "combinations2 [] = []"
| "combinations2 (x # xs) = map (Pair x) xs @ combinations2 xs"

text \<open>
  A missing path returns four \<open>nan\<close>. Otherwise the alignments are stored under the
  pairs of identifiers and then looked up under the pairs of records
  (\<open>sequences_pair_to_pairwise_alignment[pair]\<close>): a record cannot be hashed, so with at
  least one pair the look-up raises \<open>TypeError\<close> before anything is written. With no
  pair the empty dictionary is pickled and \<open>np.min\<close> of the empty list raises
  \<open>ValueError\<close>.
\<close>

definition get_sequences_similarity_with_pairwise_alignments ::
  "filesystem \<Rightarrow> string \<Rightarrow> (py_error + pyfloat list) \<times> filesystem" where
  "get_sequences_similarity_with_pairwise_alignments fs sequence_data_path =
     (if fs sequence_data_path = None then (Inr nan4, fs)
      else case SeqIO_parse fs sequence_data_path of
             Inl e \<Rightarrow> (Inl e, fs)
           | Inr sequences \<Rightarrow>
               (if combinations2 sequences \<noteq> [] then (Inl TypeError, fs)
                else (Inl ValueError,
                      fs(replace ''.fasta'' ''_sequences_similarity.pickle'' sequence_data_path
                           \<mapsto> PickleSimilarities []))))"

subsection \<open>\<open>get_sequences_similarity_with_cdhit\<close>\<close>

text \<open>
  \<open>threshold_range_to_wordlen\<close>: the word length of the first range, in the order of
  the dictionary, that holds the threshold; \<open>None\<close> for the \<open>IndexError\<close> of \<open>[0]\<close> when
  no range does. The bounds are the doubles of the literals.
\<close>

definition threshold_range_to_wordlen :: "numerics \<Rightarrow> real \<Rightarrow> nat option" where
  "threshold_range_to_wordlen N threshold =
     (case filter (\<lambda>((lo, hi), w). lo \<le> threshold \<and> threshold \<le> hi)
             [((fl N (7 / 10), 1), 5), ((fl N (6 / 10), fl N (7 / 10)), 4),
              ((fl N (5 / 10), fl N (6 / 10)), 3), ((fl N (4 / 10), fl N (5 / 10)), 2 :: nat)] of
        [] \<Rightarrow> None
      | (_, w) # _ \<Rightarrow> Some w)"

text \<open>
  The part of the function after CD-HIT has run or was found to have run: the report
  \<open>.clstr\<close> is read, no percentage in it returns four \<open>nan\<close>, otherwise the output and
  the log are removed and the statistics of the percentages returned. A similarity is
  \<open>float(match.group(1)) / 100\<close>.
\<close>

definition read_cdhit_similarities ::
  "numerics \<Rightarrow> externals \<Rightarrow> filesystem \<Rightarrow> string \<Rightarrow> string
     \<Rightarrow> (py_error + pyfloat list) \<times> filesystem" where
  "read_cdhit_similarities N ext fs cdhit_output_path cdhit_log_path =
     (case fs (cdhit_output_path @ ''.clstr'') of
        None \<Rightarrow> (Inl FileNotFoundError, fs)
      | Some (Text report) \<Rightarrow>
          (let similarities = map (\<lambda>v. fl N (fl N v / 100)) (finditer_percentage 0 report)
           in if similarities = [] then (Inr nan4, fs)
              else case os_system ext (RmR cdhit_output_path) fs of
                     (res, fs1) \<Rightarrow>
                       (if res \<noteq> 0 then (Inl RuntimeError, fs1)
                        else if fs1 cdhit_log_path \<noteq> None
                        then case os_system ext (RmR cdhit_log_path) fs1 of
                               (res', fs2) \<Rightarrow>
                                 (if res' \<noteq> 0 then (Inl RuntimeError, fs2)
                                  else (Inr (summary_of_list N similarities), fs2))
                        else (Inr (summary_of_list N similarities), fs1)))
      | Some _ \<Rightarrow> (Inl ParserError, fs))"

definition get_sequences_similarity_with_cdhit ::
  "numerics \<Rightarrow> externals \<Rightarrow> filesystem \<Rightarrow> string \<Rightarrow> nat \<Rightarrow> real
     \<Rightarrow> (py_error + pyfloat list) \<times> filesystem" where
  "get_sequences_similarity_with_cdhit N ext fs sequence_data_path mem_limit threshold =
     (if fs sequence_data_path = None then (Inr nan4, fs)
      else
        let aux_dir = getcwd ext @ ''/cdhit_aux/'';
            cdhit_output_path = aux_dir @ ''/cdhit_group_out_'' @ basename sequence_data_path;
            cdhit_log_path = cdhit_output_path @ ''.log''
        in if fs cdhit_output_path = None
           then case SeqIO_parse fs sequence_data_path of
                  Inl e \<Rightarrow> (Inl e, fs)
                | Inr sequences \<Rightarrow>
                    (if length sequences < 3
                     then get_sequences_similarity_with_pairwise_alignments fs sequence_data_path
                     else case threshold_range_to_wordlen N threshold of
                            None \<Rightarrow> (Inl IndexError, fs)
                          | Some word_len \<Rightarrow>
                              (case os_system ext
                                      (CdHit mem_limit sequence_data_path cdhit_output_path
                                         threshold word_len cdhit_log_path) fs of
                                 (res, fs1) \<Rightarrow>
                                   read_cdhit_similarities N ext fs1 cdhit_output_path
                                     cdhit_log_path))
           else read_cdhit_similarities N ext fs cdhit_output_path cdhit_log_path)"

subsection \<open>\<open>get_sequence_similarity_with_multiple_alignment\<close>\<close>

definition seq_map :: "char \<Rightarrow> nat option" where
  "seq_map = map_of
     [(CHR ''A'', 0), (CHR ''a'', 0), (CHR ''C'', 1), (CHR ''c'', 1), (CHR ''G'', 2),
      (CHR ''g'', 2), (CHR ''T'', 3), (CHR ''t'', 3), (CHR ''-'', 4)]"

text \<open>
  The dictionary comprehension \<open>seq_id_to_array\<close>: a later record of the same
  identifier replaces the array and keeps the place of the key; a character outside
  \<open>seq_map\<close> gives \<open>None\<close>, for the \<open>ValueError\<close> raised in its place.
\<close>

fun seq_id_to_array ::
  "seq_record list \<Rightarrow> (string \<times> nat list) list \<Rightarrow> (string \<times> nat list) list option" where
  "seq_id_to_array [] acc = Some acc"
| "seq_id_to_array (s # ss) acc =
     (case those (map seq_map (rec_seq s)) of
        None \<Rightarrow> None
      | Some tokens \<Rightarrow> seq_id_to_array ss (AList.update (rec_id s) tokens acc))"

text \<open>The results of a row-wise \<open>apply\<close>: the first exception ends it.\<close>

fun collect :: "(py_error + 'a) list \<Rightarrow> py_error + 'a list" where
  "collect [] = Inr []"
| "collect (Inl e # _) = Inl e"
| "collect (Inr x # rs) = (case collect rs of Inl e \<Rightarrow> Inl e | Inr xs \<Rightarrow> Inr (x # xs))"

text \<open>
  The table \<open>pair_to_similarity\<close> computed from the aligned records. The log line
  before it reads \<open>aligned_sequences[0]\<close> and raises \<open>IndexError\<close> on no record.
\<close>

definition pair_to_similarity ::
  "numerics \<Rightarrow> seq_record list \<Rightarrow> py_error + similarity_row list" where
  "pair_to_similarity N aligned_sequences =
     (if aligned_sequences = [] then Inl IndexError
      else case seq_id_to_array aligned_sequences [] of
             None \<Rightarrow> Inl ValueError
           | Some arrays \<Rightarrow>
               collect (map (\<lambda>(acc1, acc2).
                   case compute_similarity_across_aligned_sequences N
                          \<lparr>accession_1 = acc1, accession_2 = acc2\<rparr> (map_of arrays) of
                     Inl e \<Rightarrow> Inl e
                   | Inr v \<Rightarrow> Inr \<lparr>accession_1 = acc1, accession_2 = acc2, similarity = v\<rparr>)
                 (List.product (map fst arrays) (map fst arrays))))"

text \<open>
  The four statistics of the column \<open>similarity\<close> of a table, \<open>nan\<close> for a table
  without rows.
\<close>

definition similarity_statistics :: "numerics \<Rightarrow> pyfloat list \<Rightarrow> pyfloat list" where
  "similarity_statistics N similarities =
     (if similarities \<noteq> [] then summary_of_series N similarities else nan4)"

text \<open>
  The column \<open>similarity\<close> of \<open>pd.read_csv\<close> on a table file: each number is parsed
  from its text, and an empty cell, which is how \<open>nan\<close> is written, is \<open>nan\<close>.
\<close>

fun read_back :: "numerics \<Rightarrow> pyfloat \<Rightarrow> pyfloat" where
  "read_back N (Fin v) = Fin (read_csv_float N v)"
| "read_back N NaN = NaN"

definition read_csv_similarity :: "numerics \<Rightarrow> similarity_row list \<Rightarrow> pyfloat list" where
  "read_csv_similarity N table = map (\<lambda>row. read_back N (similarity row)) table"

text \<open>
  The second half of the function: the table is computed from the aligned file and
  written to the derived path, and the statistics are those of the values computed; or,
  when a file is there, the table is read from that path and the statistics are those of
  the values read.
\<close>

definition similarity_values ::
  "numerics \<Rightarrow> filesystem \<Rightarrow> string \<Rightarrow> string \<Rightarrow> (py_error + pyfloat list) \<times> filesystem" where
  "similarity_values N fs sequence_data_path output_path =
     (let similarities_output_path =
            replace ''.fasta'' ''_similarity_values.csv'' sequence_data_path
      in case fs similarities_output_path of
           None \<Rightarrow>
             (case SeqIO_parse fs output_path of
                Inl e \<Rightarrow> (Inl e, fs)
              | Inr aligned_sequences \<Rightarrow>
                  (case pair_to_similarity N aligned_sequences of
                     Inl e \<Rightarrow> (Inl e, fs)
                   | Inr table \<Rightarrow>
                       (Inr (similarity_statistics N (map similarity table)),
                        fs(similarities_output_path \<mapsto> Csv table))))
         | Some (Csv table) \<Rightarrow>
             (Inr (similarity_statistics N (read_csv_similarity N table)), fs)
         | Some _ \<Rightarrow> (Inl ParserError, fs))"

definition get_sequence_similarity_with_multiple_alignment ::
  "numerics \<Rightarrow> externals \<Rightarrow> filesystem \<Rightarrow> string \<Rightarrow> (py_error + pyfloat list) \<times> filesystem" where
  "get_sequence_similarity_with_multiple_alignment N ext fs sequence_data_path =
     (if fs sequence_data_path = None then (Inr nan4, fs)
      else
        let output_path = replace ''.'' ''_aligned.'' sequence_data_path;
            log_path = replace ''.fasta'' ''.log'' sequence_data_path
        in if fs output_path = None
           then case SeqIO_parse fs sequence_data_path of
                  Inl e \<Rightarrow> (Inl e, fs)
                | Inr sequences \<Rightarrow>
                    (case os_system ext (Mafft sequence_data_path output_path) fs of
                       (res, fs1) \<Rightarrow>
                         (if res \<noteq> 0 then (Inr nan4, fs1)
                          else if fs1 output_path = None then (Inl RuntimeError, fs1)
                          else similarity_values N
                                 (if fs1 log_path \<noteq> None then fs1(log_path := None) else fs1)
                                 sequence_data_path output_path))
           else similarity_values N fs sequence_data_path output_path)"

section \<open>ClusterAssigner\<close>

text \<open>
  The conditional expression of \<open>get_cdhit_clusters\<close> that chooses the \<open>-n\<close> argument of
  \<open>cd-hit-est\<close> from the homology threshold.
\<close>

definition cdhit_est_word_len :: "real \<Rightarrow> nat" where
  "cdhit_est_word_len homology_threshold =
     (if homology_threshold > 6 / 10
      then (if homology_threshold > 7 / 10 then 8 else 4)
      else (if homology_threshold > 5 / 10 then 3 else 2))"

function string_of_nat :: "nat \<Rightarrow> string" where
  "string_of_nat n =
     (if n < 10 then [''0123456789'' ! n]
      else string_of_nat (n div 10) @ [''0123456789'' ! (n mod 10)])"
  by pat_completeness auto
termination
  by (relation "measure id") auto

declare string_of_nat.simps [simp del]

text \<open>The text of a sequence in an f-string; a missing one prints as \<open>nan\<close>.\<close>

definition sequence_text :: "element \<Rightarrow> string" where
  "sequence_text row = (case sequence row of None \<Rightarrow> ''nan'' | Some seq \<Rightarrow> seq)"

text \<open>
  The loop over \<open>elements.iterrows()\<close>: the dictionaries \<open>elm_to_fake_name\<close>,
  \<open>fake_name_to_elm\<close> and \<open>elm_to_seq\<close>, the counter \<open>i\<close> being the position of the row.
\<close>

definition name_elements ::
  "element list \<Rightarrow> (string \<times> string) list \<times> (string \<times> string) list \<times> (string \<times> string) list" where
  "name_elements elements =
     foldl (\<lambda>(elm_to_fake_name, fake_name_to_elm, elm_to_seq) (i, row).
              let elm = accession row @ ''_'' @ taxon_name row;
                  fake = ''S'' @ string_of_nat i
              in (AList.update elm fake elm_to_fake_name,
                  AList.update fake elm fake_name_to_elm,
                  AList.update elm (sequence_text row) elm_to_seq))
           ([], [], []) (zip [0..<length elements] elements)"

text \<open>\<open>str.split(sep)\<close> for a non-empty separator.\<close>

fun split_aux :: "string \<Rightarrow> nat \<Rightarrow> string \<Rightarrow> string \<Rightarrow> string list" where
  "split_aux sep k cur [] = [rev cur]"
| "split_aux sep (Suc k) cur (c # cs) = split_aux sep k cur cs"
| "split_aux sep 0 cur (c # cs) =
     (if take (length sep) (c # cs) = sep
      then rev cur # split_aux sep (length sep - 1) [] cs
      else split_aux sep 0 (c # cur) cs)"

definition str_split :: "string \<Rightarrow> string \<Rightarrow> string list" where
  "str_split sep s = split_aux sep 0 [] s"

text \<open>
  \<open>member_regex.search(member_data).group(1)\<close> for the pattern \<open>>(.*?)\.\.\.\<close>: what
  stands between the first \<open>>\<close> and the first three dots after it; \<open>None\<close> when there
  is no match, where \<open>.group\<close> raises \<open>AttributeError\<close>.
\<close>

fun before_dots :: "string \<Rightarrow> string option" where
  "before_dots [] = None"
| "before_dots (c # cs) =
     (if take 3 (c # cs) = ''...'' then Some [] else map_option ((#) c) (before_dots cs))"

definition member_regex_search :: "string \<Rightarrow> string option" where
  "member_regex_search member_data =
     (case dropWhile (\<lambda>c. c \<noteq> CHR ''>'') member_data of
        [] \<Rightarrow> None
      | _ # rest \<Rightarrow> before_dots rest)"

text \<open>
  \<open>np.int64(data[0])\<close> of a string: white space around it is dropped, a sign may stand
  first, and the rest must be digits, between which single underscores may stand;
  otherwise \<open>ValueError\<close>. A number outside the range of 64 bits raises
  \<open>OverflowError\<close>.
\<close>

definition is_space :: "char \<Rightarrow> bool" where
  "is_space c = (c \<in> set [CHR '' '', CHR 0x09, CHR 0x0A, CHR 0x0B, CHR 0x0C, CHR 0x0D,
                          CHR 0x1C, CHR 0x1D, CHR 0x1E, CHR 0x1F])"

definition strip :: "string \<Rightarrow> string" where
  "strip s = rev (dropWhile is_space (rev (dropWhile is_space s)))"

definition parse_digits :: "string \<Rightarrow> nat option" where
  "parse_digits ds =
     (if ds \<noteq> [] \<and> is_digit (hd ds) \<and> is_digit (last ds)
         \<and> list_all (\<lambda>c. is_digit c \<or> c = CHR ''_'') ds
         \<and> list_all (\<lambda>(a, b). \<not> (a = CHR ''_'' \<and> b = CHR ''_'')) (zip ds (tl ds))
      then Some (digits_value (filter is_digit ds))
      else None)"

definition np_int64 :: "string \<Rightarrow> py_error + int" where
  "np_int64 s =
     (case (case strip s of
              [] \<Rightarrow> None
            | c # cs \<Rightarrow>
                (if c = CHR ''-'' then map_option (\<lambda>n. - int n) (parse_digits cs)
                 else if c = CHR ''+'' then map_option int (parse_digits cs)
                 else map_option int (parse_digits (c # cs)))) of
        None \<Rightarrow> Inl ValueError
      | Some v \<Rightarrow> (if - (2 ^ 63) \<le> v \<and> v < 2 ^ 63 then Inr v else Inl OverflowError))"

text \<open>The members named by the lines of one cluster block, empty lines skipped.\<close>

fun cluster_members :: "(string \<times> string) list \<Rightarrow> string list \<Rightarrow> py_error + string list" where
  "cluster_members fake_name_to_elm [] = Inr []"
| "cluster_members fake_name_to_elm (member_data # rest) =
     (if member_data = [] then cluster_members fake_name_to_elm rest
      else case member_regex_search member_data of
             None \<Rightarrow> Inl AttributeError
           | Some member_fake_name \<Rightarrow>
               (case map_of fake_name_to_elm member_fake_name of
                  None \<Rightarrow> Inl KeyError
                | Some member \<Rightarrow>
                    (case cluster_members fake_name_to_elm rest of
                       Inl e \<Rightarrow> Inl e
                     | Inr members \<Rightarrow> Inr (member # members))))"

text \<open>The loop over the cluster blocks, updating \<open>elm_to_cluster\<close>.\<close>

fun parse_clusters ::
  "(string \<times> string) list \<Rightarrow> string list \<Rightarrow> (string \<times> int) list \<Rightarrow> py_error + (string \<times> int) list" where
  "parse_clusters fake_name_to_elm [] elm_to_cluster = Inr elm_to_cluster"
| "parse_clusters fake_name_to_elm (cluster # clusters) elm_to_cluster =
     (let data = str_split [CHR 0x0A] cluster
      in case np_int64 (hd data) of
           Inl e \<Rightarrow> Inl e
         | Inr cluster_id \<Rightarrow>
             (case cluster_members fake_name_to_elm (tl data) of
                Inl e \<Rightarrow> Inl e
              | Inr members \<Rightarrow>
                  parse_clusters fake_name_to_elm clusters
                    (fold (\<lambda>member. AList.update member cluster_id) members elm_to_cluster)))"

text \<open>
  The last part of \<open>get_cdhit_clusters\<close>: the translator is unpickled and the report
  \<open>.clstr\<close> parsed.
\<close>

definition read_cdhit_clusters ::
  "filesystem \<Rightarrow> string \<Rightarrow> string \<Rightarrow> py_error + (string \<times> int) list" where
  "read_cdhit_clusters fs names_translator_path cdhit_output_file =
     (case fs names_translator_path of
        None \<Rightarrow> Inl FileNotFoundError
      | Some (PickleNames fake_name_to_elm) \<Rightarrow>
          (case fs (cdhit_output_file @ ''.clstr'') of
             None \<Rightarrow> Inl FileNotFoundError
           | Some (Text report) \<Rightarrow>
               parse_clusters fake_name_to_elm (tl (str_split ''>Cluster'' report)) []
           | Some _ \<Rightarrow> Inl ParserError)
      | Some _ \<Rightarrow> Inl ParserError)"

text \<open>
  The first part of \<open>get_cdhit_clusters\<close>: when the input of CD-HIT or the translator
  is missing, both are written from the elements.
\<close>

definition write_cdhit_input :: "filesystem \<Rightarrow> element list \<Rightarrow> string \<Rightarrow> filesystem" where
  "write_cdhit_input fs elements aux_dir =
     (let cdhit_input_path = aux_dir @ ''/sequences.fasta'';
          names_translator_path = aux_dir @ ''/names_translator.pickle''
      in if fs cdhit_input_path = None \<or> fs names_translator_path = None
         then case name_elements elements of
                (elm_to_fake_name, fake_name_to_elm, elm_to_seq) \<Rightarrow>
                  fs(cdhit_input_path \<mapsto>
                       Fasta (map (\<lambda>(elm, seq).
                           \<lparr>rec_id = the (map_of elm_to_fake_name elm), rec_seq = seq\<rparr>)
                         elm_to_seq),
                     names_translator_path \<mapsto> PickleNames fake_name_to_elm)
         else fs)"

definition get_cdhit_clusters ::
  "externals \<Rightarrow> filesystem \<Rightarrow> element list \<Rightarrow> real \<Rightarrow> nat \<Rightarrow> string
     \<Rightarrow> (py_error + (string \<times> int) list) \<times> filesystem" where
  "get_cdhit_clusters ext fs elements homology_threshold memory_limit aux_dir =
     (let cdhit_input_path = aux_dir @ ''/sequences.fasta'';
          names_translator_path = aux_dir @ ''/names_translator.pickle'';
          fs1 = write_cdhit_input fs elements aux_dir;
          cdhit_output_file = aux_dir @ ''/cdhit_out_thr_'' @ format_float ext homology_threshold;
          cdhit_log_file = aux_dir @ ''/cdhit.log''
      in if fs1 cdhit_output_file = None
         then case os_system ext
                     (CdHitEst (CDHIT_DIR ext) cdhit_input_path cdhit_output_file
                        homology_threshold (cdhit_est_word_len homology_threshold)
                        memory_limit cdhit_log_file) fs1 of
                (res, fs2) \<Rightarrow>
                  (if res \<noteq> 0 then (Inl RuntimeError, fs2)
                   else (read_cdhit_clusters fs2 names_translator_path cdhit_output_file, fs2))
         else (read_cdhit_clusters fs1 names_translator_path cdhit_output_file, fs1))"

section \<open>Arithmetic without rounding\<close>

text \<open>
  The operations of the numeric libraries in exact arithmetic. On the inputs of the
  examples below (small integers, halves and quarters) every exact result is a double,
  so the libraries return the same.
\<close>

definition mean :: "real list \<Rightarrow> real" where
  "mean xs = sum_list xs / real (length xs)"

definition median :: "real list \<Rightarrow> real" where
  "median xs =
     (let n = length xs; ys = sort xs
      in if even n then (ys ! (n div 2 - 1) + ys ! (n div 2)) / 2 else ys ! (n div 2))"

definition dot :: "real list \<Rightarrow> real list \<Rightarrow> real" where
  "dot u v = sum_list (map (\<lambda>(a, b). a * b) (zip u v))"

text \<open>The determinant by expansion along the first row, and the inverse by cofactors.\<close>

definition remove_nth :: "nat \<Rightarrow> 'a list \<Rightarrow> 'a list" where
  "remove_nth j xs = take j xs @ drop (Suc j) xs"

function det :: "real list list \<Rightarrow> real" where
  "det [] = 1"
| "det (r # rs) =
     sum_list (map (\<lambda>j. (- 1) ^ j * (r ! j) * det (map (remove_nth j) rs))
                   [0..<Suc (length rs)])"
  by pat_completeness auto
termination
  by (relation "measure length") auto

definition matrix_inverse :: "real list list \<Rightarrow> real list list option" where
  "matrix_inverse c =
     (if det c = 0 then None
      else Some (map (\<lambda>j. map (\<lambda>k.
             (- 1) ^ (j + k) * det (map (remove_nth j) (remove_nth k c)) / det c)
           [0..<length c]) [0..<length c]))"

text \<open>
  The cutoff of the examples is 5.99, for \<open>chi2.ppf(0.95, 2) = 5.991...\<close>; the ellipse
  is drawn without an exception.
\<close>

definition exact_numerics :: numerics where
  "exact_numerics =
     \<lparr>fl = (\<lambda>x. x),
      np_sum = sum_list,
      np_mean = mean,
      np_median = median,
      series_mean = mean,
      np_dot = dot,
      np_linalg_det = det,
      np_linalg_inv = matrix_inverse,
      chi2_ppf = (\<lambda>p d. Fin (599 / 100)),
      draw_ellipse = (\<lambda>covariance cutoff. None),
      read_csv_float = (\<lambda>v. v)\<rparr>"

section \<open>Sample inputs\<close>

text \<open>
  Tools for the examples: \<open>mafft\<close> writes its input, already aligned, to its output;
  \<open>rm -r\<close> removes the file; the CD-HIT programs are not installed.
\<close>

definition sample_tools :: externals where
  "sample_tools =
     \<lparr>os_system = (\<lambda>cmd fs. case cmd of
                        Mafft input output \<Rightarrow> (0, fs(output := fs input))
                      | RmR path \<Rightarrow> (0, fs(path := None))
                      | _ \<Rightarrow> (127, fs)),
      getcwd = ''/w'',
      CDHIT_DIR = ''/opt/cdhit/'',
      format_float = (\<lambda>x. ''0.99'')\<rparr>"

definition two_sequences :: content where
  "two_sequences =
     Fasta [\<lparr>rec_id = ''a'', rec_seq = ''ACGT''\<rparr>, \<lparr>rec_id = ''b'', rec_seq = ''AC-A''\<rparr>]"

text \<open>
  Two sequences at \<open>s.fasta\<close>, and in the auxiliary directory of the working directory
  a CD-HIT output left for that name, whose report has two clusters of one member.
\<close>

definition fs_cached_cdhit :: filesystem where
  "fs_cached_cdhit =
     [''s.fasta'' \<mapsto> two_sequences,
      ''/w/cdhit_aux//cdhit_group_out_s.fasta'' \<mapsto> two_sequences,
      ''/w/cdhit_aux//cdhit_group_out_s.fasta.clstr'' \<mapsto>
         Text ''>Cluster 0\<newline>0 4nt, >a... *\<newline>>Cluster 1\<newline>0 4nt, >b... *\<newline>'']"

text \<open>The files of an earlier clustering run in the directory \<open>aux\<close>.\<close>

definition fs_clustered :: filesystem where
  "fs_clustered =
     [''aux/sequences.fasta'' \<mapsto>
         Fasta [\<lparr>rec_id = ''S0'', rec_seq = ''ACGT''\<rparr>, \<lparr>rec_id = ''S1'', rec_seq = ''ACGA''\<rparr>],
      ''aux/names_translator.pickle'' \<mapsto> PickleNames [(''S0'', ''A_t''), (''S1'', ''B_u'')],
      ''aux/cdhit_out_thr_0.99'' \<mapsto>
         Fasta [\<lparr>rec_id = ''S0'', rec_seq = ''ACGT''\<rparr>],
      ''aux/cdhit_out_thr_0.99.clstr'' \<mapsto>
         Text ''>Cluster 0\<newline>0 4nt, >S0... *\<newline>1 4nt, >S1... at 75.00%\<newline>'']"

text \<open>The files after one run of the alignment strategy on \<open>s.fasta\<close>.\<close>

definition fs_one_run :: filesystem where
  "fs_one_run =
     [''s.fasta'' \<mapsto> two_sequences,
      ''s_aligned.fasta'' \<mapsto> two_sequences,
      ''s_similarity_values.csv'' \<mapsto> Csv
         [\<lparr>accession_1 = ''a'', accession_2 = ''a'', similarity = Fin 1\<rparr>,
          \<lparr>accession_1 = ''a'', accession_2 = ''b'', similarity = Fin (1 / 2)\<rparr>,
          \<lparr>accession_1 = ''b'', accession_2 = ''a'', similarity = Fin (1 / 2)\<rparr>,
          \<lparr>accession_1 = ''b'', accession_2 = ''b'', similarity = Fin 1\<rparr>]]"

text \<open>
  A stand-in for \<open>cd-hit-est\<close> that puts the first sequence alone in a cluster numbered
  by the word length it was given, so that the result shows the argument \<open>-n\<close>.
\<close>

definition recording_tools :: externals where
  "recording_tools =
     \<lparr>os_system = (\<lambda>cmd fs. case cmd of
                        CdHitEst dir input output threshold word_len memory log_file \<Rightarrow>
                          (0, fs(output \<mapsto> Fasta [],
                                 output @ ''.clstr'' \<mapsto>
                                   Text (''>Cluster '' @ string_of_nat word_len
                                         @ [CHR 0x0A] @ ''0 4nt, >S0... *'' @ [CHR 0x0A])))
                      | _ \<Rightarrow> (127, fs)),
      getcwd = ''/w'',
      CDHIT_DIR = ''/opt/cdhit/'',
      format_float = (\<lambda>x. if x = 99 / 100 then ''0.99'' else if x = 65 / 100 then ''0.65''
                            else if x = 55 / 100 then ''0.55'' else ''0.5'')\<rparr>"

definition one_element :: "element list" where
  "one_element = [\<lparr>accession = ''A'', taxon_name = ''t'', sequence = Some ''ACGT''\<rparr>]"

text \<open>
  The doubles of an example with thirds. The double nearest \<open>2 / 3\<close> is
  \<open>6004799503160661 / 2 ^ 53\<close>; one minus it is a double, \<open>6004799503160662 / 2 ^ 54\<close>,
  printed \<open>0.33333333333333337\<close>; \<open>pd.read_csv\<close> reads that text as the next double
  below, \<open>6004799503160661 / 2 ^ 54\<close>, printed \<open>0.3333333333333333\<close>. The other
  operations of the example that bear on the minimum and the maximum are exact.
\<close>

definition thirds_numerics :: numerics where
  "thirds_numerics =
     exact_numerics
       \<lparr>fl := (\<lambda>x. if x = 2 / 3 then 6004799503160661 / 2 ^ 53 else x),
        read_csv_float := (\<lambda>v. if v = 6004799503160662 / 2 ^ 54
                                then 6004799503160661 / 2 ^ 54 else v)\<rparr>"

definition three_bases :: content where
  "three_bases =
     Fasta [\<lparr>rec_id = ''a'', rec_seq = ''AAA''\<rparr>, \<lparr>rec_id = ''b'', rec_seq = ''CCA''\<rparr>]"

text \<open>The files after one run of the alignment strategy on \<open>t.fasta\<close>.\<close>

definition fs_thirds_run :: filesystem where
  "fs_thirds_run =
     [''t.fasta'' \<mapsto> three_bases,
      ''t_aligned.fasta'' \<mapsto> three_bases,
      ''t_similarity_values.csv'' \<mapsto> Csv
         [\<lparr>accession_1 = ''a'', accession_2 = ''a'', similarity = Fin 1\<rparr>,
          \<lparr>accession_1 = ''a'', accession_2 = ''b'',
           similarity = Fin (6004799503160662 / 2 ^ 54)\<rparr>,
          \<lparr>accession_1 = ''b'', accession_2 = ''a'',
           similarity = Fin (6004799503160662 / 2 ^ 54)\<rparr>,
          \<lparr>accession_1 = ''b'', accession_2 = ''b'', similarity = Fin 1\<rparr>]]"


section \<open>Properties\<close>

lemma lev_Nil_right: "lev xs [] = length xs"
  by (cases xs) simp_all

lemma lev_sym: "lev xs ys = lev ys xs"
  by (induction xs ys rule: lev.induct) (auto simp: lev_Nil_right min.commute min.left_commute)

lemma lev_refl: "lev xs xs = 0"
  by (induction xs) auto


subsection \<open>The identity shortcut of the column similarity\<close>

text \<open>
  Claim C4. For every pair record whose two accessions are equal,
  \<open>compute_similarity_across_aligned_sequences\<close> returns 1 whatever the token map is:
  the map is not read, so the result is 1 also when the accession is not one of its keys.
\<close>

theorem identity_shortcut:
  "accession_1 record = accession_2 record \<Longrightarrow>
     compute_similarity_across_aligned_sequences N record seq_to_token = Inr (Fin 1)"
  by (simp add: compute_similarity_across_aligned_sequences_def)

theorem identity_shortcut_witness:
  "accession_1 \<lparr>accession_1 = ''NC_1'', accession_2 = ''NC_1''\<rparr>
     = accession_2 \<lparr>accession_1 = ''NC_1'', accession_2 = ''NC_1''\<rparr>
   \<and> Map.empty ''NC_1'' = (None :: nat list option)
   \<and> compute_similarity_across_aligned_sequences exact_numerics
         \<lparr>accession_1 = ''NC_1'', accession_2 = ''NC_1''\<rparr> Map.empty = Inr (Fin 1)"
  using identity_shortcut [of "\<lparr>accession_1 = ''NC_1'', accession_2 = ''NC_1''\<rparr>"
      exact_numerics Map.empty]
  by simp


subsection \<open>The normalised edit distance\<close>

lemma get_pairwise_alignment_distance_sym:
  "get_pairwise_alignment_distance a b = get_pairwise_alignment_distance b a"
  by (simp add: get_pairwise_alignment_distance_def lev_sym max.commute)

lemma get_pairwise_alignment_distance_NaN_iff:
  "get_pairwise_alignment_distance a b = NaN \<longleftrightarrow> a = [] \<and> b = []"
  by (auto simp: get_pairwise_alignment_distance_def Let_def)

lemma get_pairwise_alignment_distance_self:
  "a \<noteq> [] \<Longrightarrow> get_pairwise_alignment_distance a a = Fin 0"
  by (simp add: get_pairwise_alignment_distance_def lev_refl)

text \<open>
  Claim C5, as amended. For all sequences \<open>a\<close> and \<open>b\<close> the distance from \<open>a\<close> to \<open>b\<close>
  and the distance from \<open>b\<close> to \<open>a\<close> are the same value, which is the sentinel \<open>nan\<close>
  exactly when both sequences are empty; and for every non-empty sequence \<open>a\<close> the
  distance from \<open>a\<close> to itself is 0.
\<close>

theorem alignment_distance_symmetric_and_zero_on_nonempty:
  "get_pairwise_alignment_distance a b = get_pairwise_alignment_distance b a
   \<and> (get_pairwise_alignment_distance a b = NaN \<longleftrightarrow> a = [] \<and> b = [])
   \<and> (a \<noteq> [] \<longrightarrow> get_pairwise_alignment_distance a a = Fin 0)"
  using get_pairwise_alignment_distance_sym [of a b]
    get_pairwise_alignment_distance_NaN_iff [of a b]
    get_pairwise_alignment_distance_self [of a]
  by blast

theorem alignment_distance_symmetric_and_zero_on_nonempty_witness:
  "''ACGT'' \<noteq> []
   \<and> get_pairwise_alignment_distance ''ACGT'' ''ACGT'' = Fin 0
   \<and> get_pairwise_alignment_distance ''ACGT'' ''AGT'' = get_pairwise_alignment_distance ''AGT'' ''ACGT''
   \<and> get_pairwise_alignment_distance ''ACGT'' ''AGT'' \<noteq> NaN"
  using alignment_distance_symmetric_and_zero_on_nonempty [of "''ACGT''" "''AGT''"]
  by (simp add: get_pairwise_alignment_distance_def)

text \<open>
  The claim as stated fails on the empty sequence: its distance to itself is \<open>nan\<close>,
  not 0.
\<close>

theorem alignment_distance_empty_counterexample:
  "get_pairwise_alignment_distance [] [] = NaN
   \<and> get_pairwise_alignment_distance [] [] \<noteq> Fin 0"
  by (simp add: get_pairwise_alignment_distance_def)

subsection \<open>The word length given to CD-HIT\<close>

lemma cdhit_est_word_len_bands:
  "(t > 7 / 10 \<longrightarrow> cdhit_est_word_len t = 8)
   \<and> (6 / 10 < t \<and> t \<le> 7 / 10 \<longrightarrow> cdhit_est_word_len t = 4)
   \<and> (5 / 10 < t \<and> t \<le> 6 / 10 \<longrightarrow> cdhit_est_word_len t = 3)
   \<and> (t \<le> 5 / 10 \<longrightarrow> cdhit_est_word_len t = 2)"
  by (simp add: cdhit_est_word_len_def)


lemma recorded_input:
  "write_cdhit_input Map.empty one_element ''aux''
     = [''aux/sequences.fasta'' \<mapsto> Fasta [\<lparr>rec_id = ''S0'', rec_seq = ''ACGT''\<rparr>],
        ''aux/names_translator.pickle'' \<mapsto> PickleNames [(''S0'', ''A_t'')]]"
proof -
  have "string_of_nat 0 = ''0''"
    by (simp add: string_of_nat.simps)
  then show ?thesis
    by (simp add: write_cdhit_input_def one_element_def name_elements_def sequence_text_def
        Let_def)
qed

lemma recorded_report:
  "w \<in> {8, 4, 3, 2} \<Longrightarrow>
     parse_clusters [(''S0'', ''A_t'')]
       (tl (str_split ''>Cluster''
              (''>Cluster '' @ string_of_nat w @ [CHR 0x0A] @ ''0 4nt, >S0... *'' @ [CHR 0x0A]))) []
       = Inr [(''A_t'', int w)]"
proof -
  have digits: "string_of_nat 8 = ''8''" "string_of_nat 4 = ''4''" "string_of_nat 3 = ''3''"
    "string_of_nat 2 = ''2''"
    by (simp_all add: string_of_nat.simps)
  assume "w \<in> {8, 4, 3, 2}"
  then consider "w = 8" | "w = 4" | "w = 3" | "w = 2" by auto
  then show ?thesis
    by cases
      (simp_all add: digits str_split_def np_int64_def strip_def is_space_def
        parse_digits_def is_digit_def digits_value_def digit_value_def member_regex_search_def)
qed

lemma recorded_clusters:
  assumes "out \<in> {''aux/cdhit_out_thr_0.99'', ''aux/cdhit_out_thr_0.65'',
                   ''aux/cdhit_out_thr_0.55'', ''aux/cdhit_out_thr_0.5''}"
      and "w \<in> {8, 4, 3, 2}"
  shows "fst (case os_system recording_tools
                     (CdHitEst d ''aux/sequences.fasta'' out t w m l)
                     (write_cdhit_input Map.empty one_element ''aux'') of
                (res, fs2) \<Rightarrow>
                  if res \<noteq> 0 then (Inl RuntimeError, fs2)
                  else (read_cdhit_clusters fs2 ''aux/names_translator.pickle'' out, fs2))
         = Inr [(''A_t'', int w)]"
proof -
  from assms(1) have names: "out \<noteq> ''aux/names_translator.pickle''"
    "out @ ''.clstr'' \<noteq> ''aux/names_translator.pickle''"
    by auto
  show ?thesis
    unfolding recorded_input
    using names recorded_report [OF assms(2)]
    by (simp add: recording_tools_def read_cdhit_clusters_def
        del: parse_clusters.simps)
qed


text \<open>
  Claim C7. When \<open>get_cdhit_clusters\<close> runs CD-HIT, that is, when no output for the
  homology threshold is there after the input files are written, the command it gives to
  \<open>os.system\<close> is \<open>cd-hit-est\<close> with the word length 8 for a threshold above 0.7, 4 for a
  threshold in (0.6, 0.7], 3 for a threshold in (0.5, 0.6], and 2 for a threshold of at
  most 0.5; a non-zero exit status raises, and otherwise the clusters are read from what
  the command left.
\<close>

theorem word_len_bands:
  assumes "write_cdhit_input fs elements aux_dir
             (aux_dir @ ''/cdhit_out_thr_'' @ format_float ext t) = None"
  shows "\<exists>w. (t > 7 / 10 \<longrightarrow> w = 8)
           \<and> (6 / 10 < t \<and> t \<le> 7 / 10 \<longrightarrow> w = 4)
           \<and> (5 / 10 < t \<and> t \<le> 6 / 10 \<longrightarrow> w = 3)
           \<and> (t \<le> 5 / 10 \<longrightarrow> w = 2)
           \<and> get_cdhit_clusters ext fs elements t memory_limit aux_dir
               = (case os_system ext
                         (CdHitEst (CDHIT_DIR ext) (aux_dir @ ''/sequences.fasta'')
                            (aux_dir @ ''/cdhit_out_thr_'' @ format_float ext t) t w
                            memory_limit (aux_dir @ ''/cdhit.log''))
                         (write_cdhit_input fs elements aux_dir) of
                    (res, fs2) \<Rightarrow>
                      if res \<noteq> 0 then (Inl RuntimeError, fs2)
                      else (read_cdhit_clusters fs2 (aux_dir @ ''/names_translator.pickle'')
                              (aux_dir @ ''/cdhit_out_thr_'' @ format_float ext t), fs2))"
proof (intro exI [of _ "cdhit_est_word_len t"] conjI)
  show "get_cdhit_clusters ext fs elements t memory_limit aux_dir
               = (case os_system ext
                         (CdHitEst (CDHIT_DIR ext) (aux_dir @ ''/sequences.fasta'')
                            (aux_dir @ ''/cdhit_out_thr_'' @ format_float ext t) t
                            (cdhit_est_word_len t)
                            memory_limit (aux_dir @ ''/cdhit.log''))
                         (write_cdhit_input fs elements aux_dir) of
                    (res, fs2) \<Rightarrow>
                      if res \<noteq> 0 then (Inl RuntimeError, fs2)
                      else (read_cdhit_clusters fs2 (aux_dir @ ''/names_translator.pickle'')
                              (aux_dir @ ''/cdhit_out_thr_'' @ format_float ext t), fs2))"
    using assms by (simp add: get_cdhit_clusters_def Let_def split: prod.splits)
qed (simp_all add: cdhit_est_word_len_def)

theorem word_len_bands_witness:
  "write_cdhit_input Map.empty one_element ''aux''
     (''aux'' @ ''/cdhit_out_thr_'' @ format_float recording_tools (99 / 100)) = None
   \<and> (99 / 100 :: real) > 7 / 10
   \<and> fst (get_cdhit_clusters recording_tools Map.empty one_element (99 / 100) 6000 ''aux'')
       = Inr [(''A_t'', 8)]
   \<and> write_cdhit_input Map.empty one_element ''aux''
     (''aux'' @ ''/cdhit_out_thr_'' @ format_float recording_tools (65 / 100)) = None
   \<and> (6 / 10 :: real) < 65 / 100 \<and> (65 / 100 :: real) \<le> 7 / 10
   \<and> fst (get_cdhit_clusters recording_tools Map.empty one_element (65 / 100) 6000 ''aux'')
       = Inr [(''A_t'', 4)]
   \<and> write_cdhit_input Map.empty one_element ''aux''
     (''aux'' @ ''/cdhit_out_thr_'' @ format_float recording_tools (55 / 100)) = None
   \<and> (5 / 10 :: real) < 55 / 100 \<and> (55 / 100 :: real) \<le> 6 / 10
   \<and> fst (get_cdhit_clusters recording_tools Map.empty one_element (55 / 100) 6000 ''aux'')
       = Inr [(''A_t'', 3)]
   \<and> write_cdhit_input Map.empty one_element ''aux''
     (''aux'' @ ''/cdhit_out_thr_'' @ format_float recording_tools (5 / 10)) = None
   \<and> (5 / 10 :: real) \<le> 5 / 10
   \<and> fst (get_cdhit_clusters recording_tools Map.empty one_element (5 / 10) 6000 ''aux'')
       = Inr [(''A_t'', 2)]"
proof -
  have paths: "''aux'' @ ''/sequences.fasta'' = ''aux/sequences.fasta''"
    "''aux'' @ ''/names_translator.pickle'' = ''aux/names_translator.pickle''"
    by simp_all
  have out: "''aux'' @ ''/cdhit_out_thr_'' @ format_float recording_tools t
                 \<in> {''aux/cdhit_out_thr_0.99'', ''aux/cdhit_out_thr_0.65'',
                     ''aux/cdhit_out_thr_0.55'', ''aux/cdhit_out_thr_0.5''}" for t
    by (simp add: recording_tools_def)
  have absent: "write_cdhit_input Map.empty one_element ''aux''
     (''aux'' @ ''/cdhit_out_thr_'' @ format_float recording_tools t) = None" for t
    using out [of t] unfolding recorded_input by auto
  have run: "fst (get_cdhit_clusters recording_tools Map.empty one_element t 6000 ''aux'')
               = Inr [(''A_t'', int (cdhit_est_word_len t))]" for t
  proof -
    from word_len_bands [OF absent [of t], of 6000] obtain w where
      bands: "(t > 7 / 10 \<longrightarrow> w = 8) \<and> (6 / 10 < t \<and> t \<le> 7 / 10 \<longrightarrow> w = 4)
              \<and> (5 / 10 < t \<and> t \<le> 6 / 10 \<longrightarrow> w = 3) \<and> (t \<le> 5 / 10 \<longrightarrow> w = 2)"
      and eq: "get_cdhit_clusters recording_tools Map.empty one_element t 6000 ''aux''
               = (case os_system recording_tools
                         (CdHitEst (CDHIT_DIR recording_tools) (''aux'' @ ''/sequences.fasta'')
                            (''aux'' @ ''/cdhit_out_thr_'' @ format_float recording_tools t) t w
                            6000 (''aux'' @ ''/cdhit.log''))
                         (write_cdhit_input Map.empty one_element ''aux'') of
                    (res, fs2) \<Rightarrow>
                      if res \<noteq> 0 then (Inl RuntimeError, fs2)
                      else (read_cdhit_clusters fs2 (''aux'' @ ''/names_translator.pickle'')
                              (''aux'' @ ''/cdhit_out_thr_'' @ format_float recording_tools t),
                            fs2))"
      by blast
    from bands have w: "cdhit_est_word_len t = w" "w \<in> {8, 4, 3, 2}"
      by (auto simp add: cdhit_est_word_len_def)
    show ?thesis
      unfolding eq paths w(1) by (rule recorded_clusters [OF out w(2)])
  qed
  have len: "cdhit_est_word_len (99 / 100) = 8" "cdhit_est_word_len (65 / 100) = 4"
    "cdhit_est_word_len (55 / 100) = 3" "cdhit_est_word_len (5 / 10) = 2"
    by (simp_all add: cdhit_est_word_len_def)
  from absent [of "99 / 100"] absent [of "65 / 100"] absent [of "55 / 100"] absent [of "5 / 10"]
    run [of "99 / 100"] run [of "65 / 100"] run [of "55 / 100"] run [of "5 / 10"]
  show ?thesis unfolding len by simp
qed

subsection \<open>The representative of the three-element table\<close>

text \<open>
  Claim C1, at the table of the specification. The row sums are 1.0 for \<open>A\<close>, 0.8 for
  \<open>B\<close> and 1.4 for \<open>C\<close>, so the member of least summed distance is \<open>B\<close>; the position
  that \<open>get_centroid\<close> reads is the first least entry of the pair column, position 0,
  and the representative it returns is \<open>A\<close>, for the table and for a cluster whose
  sequences have these distances.
\<close>

theorem get_centroid_table_ABC:
  "groupby_element_1_sum table_ABC = [(''A'', 1), (''B'', 8 / 10), (''C'', 14 / 10)]
   \<and> least_sum_keys table_ABC = [''B'']
   \<and> series_argmin (map distance table_ABC) = Some 0
   \<and> get_centroid table_ABC = Inr ''A''
   \<and> compute_pairwise_sequence_distances cluster_ABC = table_ABC
   \<and> cluster_representative cluster_ABC = Inr ''A''"
proof -
  have sums: "groupby_element_1_sum table_ABC = [(''A'', 1), (''B'', 8 / 10), (''C'', 14 / 10)]"
    by (simp add: groupby_element_1_sum_def table_ABC_def)
  have least: "least_sum_keys table_ABC = [''B'']"
    by (simp add: least_sum_keys_def sums)
  have pos: "series_argmin (map distance table_ABC) = Some 0"
    by (simp add: series_argmin_def table_ABC_def)
  have centroid: "get_centroid table_ABC = Inr ''A''"
    by (simp add: get_centroid_def sums pos)
  have table: "compute_pairwise_sequence_distances cluster_ABC = table_ABC"
    by (simp add: compute_pairwise_sequence_distances_def cluster_ABC_def table_ABC_def
        get_distance_def first_sequence_def List.map_filter_def
        get_pairwise_alignment_distance_def)
  have "cluster_representative cluster_ABC = get_centroid table_ABC"
    unfolding table [symmetric] by (simp add: cluster_representative_def cluster_ABC_def)
  with sums least pos centroid table show ?thesis by simp
qed

subsection \<open>The outlier detectors\<close>

lemma finite_values_Fin: "finite_values (map (\<lambda>j. Fin (f j)) js) = map f js"
  by (induction js) simp_all

lemma sum_of_Fin: "sum_of N (map (\<lambda>j. Fin (f j)) js) = Fin (np_sum N (map f js))"
  by (auto simp add: sum_of_def finite_values_Fin)

lemma np_mean_axis0_nth:
  "rows data \<noteq> [] \<Longrightarrow> j < ncols data \<Longrightarrow>
     np_mean_axis0 N data ! j = Fin (np_mean N (column data j))"
  by (simp add: np_mean_axis0_def)

lemma euclidean_score:
  assumes "rows data \<noteq> []"
  shows "sum_of N (map (\<lambda>j. fl_sub N (Fin (val ! j)) (np_mean_axis0 N data ! j)) [0..<ncols data])
         = Fin (np_sum N (map (\<lambda>j. fl N (val ! j - np_mean N (column data j))) [0..<ncols data]))"
proof -
  have eq: "map (\<lambda>j. fl_sub N (Fin (val ! j)) (np_mean_axis0 N data ! j)) [0..<ncols data]
        = map (\<lambda>j. Fin (fl N (val ! j - np_mean N (column data j)))) [0..<ncols data]"
    using assms by (intro map_cong) (simp_all add: np_mean_axis0_nth)
  show ?thesis unfolding eq by (rule sum_of_Fin)
qed

lemma euclidean_dist_unfold:
  assumes "2 \<le> ncols data"
  shows "compute_outliers_with_euclidean_dist N data =
     Inr (OutlierIndexes (filter
       (\<lambda>i. fgt (Fin (np_sum N (map (\<lambda>j. fl N (rows data ! i ! j
                                             - np_mean N (map (\<lambda>r. r ! j) (rows data))))
                                  [0..<ncols data])))
                (chi2_ppf N (95 / 100) (ncols data)))
       [0..<length (rows data)]))"
proof -
  have "filter (\<lambda>i. fgt (map (\<lambda>val. sum_of N (map (\<lambda>j. fl_sub N (Fin (val ! j))
                                                          (np_mean_axis0 N data ! j))
                                               [0..<ncols data])) (rows data) ! i)
                      (chi2_ppf N (95 / 100) (ncols data))) [0..<length (rows data)]
      = filter (\<lambda>i. fgt (Fin (np_sum N (map (\<lambda>j. fl N (rows data ! i ! j
                                                       - np_mean N (column data j)))
                                  [0..<ncols data])))
                (chi2_ppf N (95 / 100) (ncols data))) [0..<length (rows data)]"
  proof (rule filter_cong [OF refl])
    fix i assume "i \<in> set [0..<length (rows data)]"
    then have i: "i < length (rows data)" by simp
    then have "rows data \<noteq> []" by auto
    with i show "fgt (map (\<lambda>val. sum_of N (map (\<lambda>j. fl_sub N (Fin (val ! j))
                                                          (np_mean_axis0 N data ! j))
                                               [0..<ncols data])) (rows data) ! i)
                      (chi2_ppf N (95 / 100) (ncols data))
        = fgt (Fin (np_sum N (map (\<lambda>j. fl N (rows data ! i ! j - np_mean N (column data j)))
                                  [0..<ncols data])))
                (chi2_ppf N (95 / 100) (ncols data))"
      by (simp add: euclidean_score)
  qed
  with assms show ?thesis
    by (simp add: compute_outliers_with_euclidean_dist_def Let_def column_def)
qed


text \<open>
  Claim C6, as amended. On an array of at least two columns,
  \<open>compute_outliers_with_euclidean_dist\<close> returns exactly the 0-based indices of the rows
  whose score strictly exceeds the cutoff, where the score of a row is \<open>np.sum\<close>, the
  signed sum and not a norm, over the columns of the entry minus the column mean of
  \<open>np.mean\<close>, and the cutoff is the chi-square inverse CDF at probability 0.95 with as
  many degrees of freedom as there are columns.
\<close>

theorem euclidean_outliers:
  assumes "2 \<le> ncols data"
  shows "compute_outliers_with_euclidean_dist N data =
     Inr (OutlierIndexes (filter
       (\<lambda>i. fgt (Fin (np_sum N (map (\<lambda>j. fl N (rows data ! i ! j
                                             - np_mean N (map (\<lambda>r. r ! j) (rows data))))
                                  [0..<ncols data])))
                (chi2_ppf N (95 / 100) (ncols data)))
       [0..<length (rows data)]))"
  using assms by (rule euclidean_dist_unfold)

theorem euclidean_outliers_witness:
  "2 \<le> ncols \<lparr>ncols = 2, rows = [[0, 0], [0, 0], [30, 30]]\<rparr>
   \<and> compute_outliers_with_euclidean_dist exact_numerics
         \<lparr>ncols = 2, rows = [[0, 0], [0, 0], [30, 30]]\<rparr> = Inr (OutlierIndexes [2])"
  using euclidean_outliers [of "\<lparr>ncols = 2, rows = [[0, 0], [0, 0], [30, 30]]\<rparr>"
      exact_numerics]
  by (simp add: upt_conv_Cons exact_numerics_def mean_def)


text \<open>
  The claim as stated fails on an array of one column: the reads of the second column
  for the plot raise \<open>IndexError\<close>, and no list is returned.
\<close>

theorem euclidean_one_column_counterexample:
  "compute_outliers_with_euclidean_dist exact_numerics \<lparr>ncols = 1, rows = [[0], [0], [30]]\<rparr>
     = Inl IndexError"
  by (simp add: compute_outliers_with_euclidean_dist_def)













subsection \<open>The similarity strategies\<close>

text \<open>
  Claim C3. For each of the three similarity strategies (CD-HIT, multiple sequence
  alignment, pairwise alignment): if the sequence path does not exist, the function
  returns the four values \<open>nan\<close> for mean, minimum, maximum and median, raises nothing
  and leaves the files as they are.
\<close>

theorem missing_path_returns_nan:
  "fs sequence_data_path = None \<Longrightarrow>
     get_sequences_similarity_with_cdhit N ext fs sequence_data_path mem_limit threshold
       = (Inr [NaN, NaN, NaN, NaN], fs)
   \<and> get_sequence_similarity_with_multiple_alignment N ext fs sequence_data_path
       = (Inr [NaN, NaN, NaN, NaN], fs)
   \<and> get_sequences_similarity_with_pairwise_alignments fs sequence_data_path
       = (Inr [NaN, NaN, NaN, NaN], fs)"
  by (simp add: get_sequences_similarity_with_cdhit_def
      get_sequence_similarity_with_multiple_alignment_def
      get_sequences_similarity_with_pairwise_alignments_def nan4_def)

theorem missing_path_returns_nan_witness:
  "Map.empty ''s.fasta'' = (None :: content option)
   \<and> get_sequences_similarity_with_cdhit exact_numerics sample_tools Map.empty ''s.fasta''
        4000 (5 / 10)
       = (Inr [NaN, NaN, NaN, NaN], Map.empty)
   \<and> get_sequence_similarity_with_multiple_alignment exact_numerics sample_tools Map.empty
        ''s.fasta''
       = (Inr [NaN, NaN, NaN, NaN], Map.empty)
   \<and> get_sequences_similarity_with_pairwise_alignments Map.empty ''s.fasta''
       = (Inr [NaN, NaN, NaN, NaN], Map.empty)"
  using missing_path_returns_nan [of Map.empty "''s.fasta''" exact_numerics sample_tools 4000
      "5 / 10"]
  by simp


lemma pairwise_alignments_raise:
  assumes "fs sequence_data_path \<noteq> None"
  shows "\<exists>e fs'. get_sequences_similarity_with_pairwise_alignments fs sequence_data_path
           = (Inl e, fs')"
  using assms
  by (auto simp add: get_sequences_similarity_with_pairwise_alignments_def split: sum.splits)

lemma cdhit_fallback_is_pairwise:
  assumes "fs sequence_data_path \<noteq> None"
      and "SeqIO_parse fs sequence_data_path = Inr sequences"
      and "length sequences < 3"
      and "fs (getcwd ext @ ''/cdhit_aux/'' @ ''/cdhit_group_out_'' @ basename sequence_data_path)
             = None"
  shows "get_sequences_similarity_with_cdhit N ext fs sequence_data_path mem_limit threshold
           = get_sequences_similarity_with_pairwise_alignments fs sequence_data_path"
  using assms by (auto simp add: get_sequences_similarity_with_cdhit_def Let_def)


text \<open>
  Claim C9, at an input of two sequences and at an input of one, with no CD-HIT output
  left by an earlier run. The CD-HIT strategy falls back to the pairwise strategy, and
  the pairwise strategy returns nothing: on two sequences its look-up under a pair of
  records raises \<open>TypeError\<close>, on one sequence \<open>np.min\<close> of the empty list raises
  \<open>ValueError\<close> after the empty dictionary is pickled.
\<close>

theorem cdhit_fallback_raises:
  "get_sequences_similarity_with_cdhit exact_numerics sample_tools
     [''s.fasta'' \<mapsto> two_sequences] ''s.fasta'' 4000 (5 / 10)
     = (Inl TypeError, [''s.fasta'' \<mapsto> two_sequences])
   \<and> get_sequences_similarity_with_pairwise_alignments
        [''s.fasta'' \<mapsto> two_sequences] ''s.fasta''
     = (Inl TypeError, [''s.fasta'' \<mapsto> two_sequences])
   \<and> get_sequences_similarity_with_cdhit exact_numerics sample_tools
        [''s.fasta'' \<mapsto> Fasta [\<lparr>rec_id = ''a'', rec_seq = ''ACGT''\<rparr>]] ''s.fasta'' 4000 (5 / 10)
     = (Inl ValueError,
        [''s.fasta'' \<mapsto> Fasta [\<lparr>rec_id = ''a'', rec_seq = ''ACGT''\<rparr>],
         ''s_sequences_similarity.pickle'' \<mapsto> PickleSimilarities []])"
proof -
  have p: "replace ''.fasta'' ''_sequences_similarity.pickle'' ''s.fasta''
             = ''s_sequences_similarity.pickle''"
    by (simp add: replace.simps)
  have two: "get_sequences_similarity_with_pairwise_alignments
        [''s.fasta'' \<mapsto> two_sequences] ''s.fasta''
     = (Inl TypeError, [''s.fasta'' \<mapsto> two_sequences])"
    by (simp add: get_sequences_similarity_with_pairwise_alignments_def SeqIO_parse_def
        two_sequences_def)
  have one: "get_sequences_similarity_with_pairwise_alignments
        [''s.fasta'' \<mapsto> Fasta [\<lparr>rec_id = ''a'', rec_seq = ''ACGT''\<rparr>]] ''s.fasta''
     = (Inl ValueError,
        [''s.fasta'' \<mapsto> Fasta [\<lparr>rec_id = ''a'', rec_seq = ''ACGT''\<rparr>],
         ''s_sequences_similarity.pickle'' \<mapsto> PickleSimilarities []])"
    by (simp add: get_sequences_similarity_with_pairwise_alignments_def SeqIO_parse_def p)
  have "get_sequences_similarity_with_cdhit exact_numerics sample_tools
          [''s.fasta'' \<mapsto> two_sequences] ''s.fasta'' 4000 (5 / 10)
        = get_sequences_similarity_with_pairwise_alignments
            [''s.fasta'' \<mapsto> two_sequences] ''s.fasta''"
    by (rule cdhit_fallback_is_pairwise [where sequences =
          "[\<lparr>rec_id = ''a'', rec_seq = ''ACGT''\<rparr>, \<lparr>rec_id = ''b'', rec_seq = ''AC-A''\<rparr>]"])
       (simp_all add: SeqIO_parse_def two_sequences_def sample_tools_def basename_def)
  moreover have "get_sequences_similarity_with_cdhit exact_numerics sample_tools
          [''s.fasta'' \<mapsto> Fasta [\<lparr>rec_id = ''a'', rec_seq = ''ACGT''\<rparr>]] ''s.fasta'' 4000 (5 / 10)
        = get_sequences_similarity_with_pairwise_alignments
            [''s.fasta'' \<mapsto> Fasta [\<lparr>rec_id = ''a'', rec_seq = ''ACGT''\<rparr>]] ''s.fasta''"
    by (rule cdhit_fallback_is_pairwise [where sequences =
          "[\<lparr>rec_id = ''a'', rec_seq = ''ACGT''\<rparr>]"])
       (simp_all add: SeqIO_parse_def sample_tools_def basename_def)
  ultimately show ?thesis using two one by simp
qed


text \<open>
  With a CD-HIT output left for the name of the input, the sequences are not counted
  and the pairwise strategy is not called: the report is read.
\<close>

lemma cdhit_cached_output_example:
  "fs_cached_cdhit ''s.fasta'' \<noteq> None
   \<and> SeqIO_parse fs_cached_cdhit ''s.fasta''
        = Inr [\<lparr>rec_id = ''a'', rec_seq = ''ACGT''\<rparr>, \<lparr>rec_id = ''b'', rec_seq = ''AC-A''\<rparr>]
   \<and> get_sequences_similarity_with_cdhit exact_numerics sample_tools fs_cached_cdhit
        ''s.fasta'' 4000 (5 / 10)
        = (Inr [NaN, NaN, NaN, NaN], fs_cached_cdhit)"
proof -
  have parse: "SeqIO_parse fs_cached_cdhit ''s.fasta''
        = Inr [\<lparr>rec_id = ''a'', rec_seq = ''ACGT''\<rparr>, \<lparr>rec_id = ''b'', rec_seq = ''AC-A''\<rparr>]"
    by (simp add: SeqIO_parse_def fs_cached_cdhit_def two_sequences_def)
  have ex: "fs_cached_cdhit ''s.fasta'' \<noteq> None"
    by (simp add: fs_cached_cdhit_def)
  have out: "fs_cached_cdhit ''/w/cdhit_aux//cdhit_group_out_s.fasta'' \<noteq> None"
    by (simp add: fs_cached_cdhit_def)
  have report: "fs_cached_cdhit ''/w/cdhit_aux//cdhit_group_out_s.fasta.clstr''
        = Some (Text ''>Cluster 0\<newline>0 4nt, >a... *\<newline>>Cluster 1\<newline>0 4nt, >b... *\<newline>'')"
    by (simp add: fs_cached_cdhit_def)
  have none: "finditer_percentage 0 ''>Cluster 0\<newline>0 4nt, >a... *\<newline>>Cluster 1\<newline>0 4nt, >b... *\<newline>'' = []"
    by (simp add: match_percentage_def is_digit_def)
  have path: "''/w/cdhit_aux//cdhit_group_out_s.fasta'' @ ''.clstr''
        = ''/w/cdhit_aux//cdhit_group_out_s.fasta.clstr''"
    by simp
  have rd: "read_cdhit_similarities N sample_tools fs_cached_cdhit
              ''/w/cdhit_aux//cdhit_group_out_s.fasta''
              ''/w/cdhit_aux//cdhit_group_out_s.fasta.log'' = (Inr nan4, fs_cached_cdhit)" for N
    unfolding read_cdhit_similarities_def path report
    by (simp add: none del: finditer_percentage.simps)
  have cd: "get_sequences_similarity_with_cdhit exact_numerics sample_tools fs_cached_cdhit
              ''s.fasta'' 4000 (5 / 10)
        = (Inr [NaN, NaN, NaN, NaN], fs_cached_cdhit)"
    using ex out
    by (auto simp add: get_sequences_similarity_with_cdhit_def sample_tools_def basename_def
        rd [unfolded sample_tools_def] nan4_def Let_def)
  from parse ex cd show ?thesis by simp
qed


subsection \<open>Clusters from the files of an earlier run\<close>

text \<open>
  Claim C10. If \<open>sequences.fasta\<close> and \<open>names_translator.pickle\<close> exist under the
  auxiliary directory and the CD-HIT output for the homology threshold exists there too,
  the mapping returned by \<open>get_cdhit_clusters\<close> is the same for any two tables of
  elements: it is what the translator and the cluster report give, and no file changes.
\<close>

theorem cdhit_clusters_ignore_elements:
  assumes "fs (aux_dir @ ''/sequences.fasta'') \<noteq> None"
      and "fs (aux_dir @ ''/names_translator.pickle'') \<noteq> None"
      and "fs (aux_dir @ ''/cdhit_out_thr_'' @ format_float ext homology_threshold) \<noteq> None"
  shows "get_cdhit_clusters ext fs elements homology_threshold memory_limit aux_dir
           = get_cdhit_clusters ext fs elements' homology_threshold memory_limit aux_dir
       \<and> get_cdhit_clusters ext fs elements homology_threshold memory_limit aux_dir
           = (read_cdhit_clusters fs (aux_dir @ ''/names_translator.pickle'')
                (aux_dir @ ''/cdhit_out_thr_'' @ format_float ext homology_threshold), fs)"
  using assms by (auto simp add: get_cdhit_clusters_def write_cdhit_input_def Let_def)

theorem cdhit_clusters_ignore_elements_witness:
  "fs_clustered (''aux'' @ ''/sequences.fasta'') \<noteq> None
   \<and> fs_clustered (''aux'' @ ''/names_translator.pickle'') \<noteq> None
   \<and> fs_clustered (''aux'' @ ''/cdhit_out_thr_'' @ format_float sample_tools (99 / 100)) \<noteq> None
   \<and> get_cdhit_clusters sample_tools fs_clustered
        [\<lparr>accession = ''A'', taxon_name = ''t'', sequence = Some ''ACGT''\<rparr>] (99 / 100) 6000 ''aux''
      = get_cdhit_clusters sample_tools fs_clustered
        [\<lparr>accession = ''Z'', taxon_name = ''z'', sequence = None\<rparr>,
         \<lparr>accession = ''Y'', taxon_name = ''y'', sequence = Some ''TTTT''\<rparr>] (99 / 100) 6000 ''aux''
   \<and> get_cdhit_clusters sample_tools fs_clustered
        [\<lparr>accession = ''A'', taxon_name = ''t'', sequence = Some ''ACGT''\<rparr>] (99 / 100) 6000 ''aux''
      = (Inr [(''A_t'', 0), (''B_u'', 0)], fs_clustered)"
proof -
  have files: "fs_clustered (''aux'' @ ''/sequences.fasta'') \<noteq> None"
    "fs_clustered (''aux'' @ ''/names_translator.pickle'') \<noteq> None"
    "fs_clustered (''aux'' @ ''/cdhit_out_thr_'' @ format_float sample_tools (99 / 100)) \<noteq> None"
    by (simp_all add: fs_clustered_def sample_tools_def)
  have r: "read_cdhit_clusters fs_clustered (''aux'' @ ''/names_translator.pickle'')
          (''aux'' @ ''/cdhit_out_thr_'' @ format_float sample_tools (99 / 100))
        = Inr [(''A_t'', 0), (''B_u'', 0)]"
    by (simp add: read_cdhit_clusters_def fs_clustered_def sample_tools_def str_split_def
        np_int64_def strip_def is_space_def parse_digits_def is_digit_def digits_value_def
        digit_value_def member_regex_search_def)
  note both = cdhit_clusters_ignore_elements [OF files,
        of "[\<lparr>accession = ''A'', taxon_name = ''t'', sequence = Some ''ACGT''\<rparr>]" 6000
           "[\<lparr>accession = ''Z'', taxon_name = ''z'', sequence = None\<rparr>,
             \<lparr>accession = ''Y'', taxon_name = ''y'', sequence = Some ''TTTT''\<rparr>]"]
  from both have eq: "get_cdhit_clusters sample_tools fs_clustered
        [\<lparr>accession = ''A'', taxon_name = ''t'', sequence = Some ''ACGT''\<rparr>] (99 / 100) 6000 ''aux''
      = get_cdhit_clusters sample_tools fs_clustered
        [\<lparr>accession = ''Z'', taxon_name = ''z'', sequence = None\<rparr>,
         \<lparr>accession = ''Y'', taxon_name = ''y'', sequence = Some ''TTTT''\<rparr>] (99 / 100) 6000 ''aux''"
    by (rule conjunct1)
  from both have val: "get_cdhit_clusters sample_tools fs_clustered
        [\<lparr>accession = ''A'', taxon_name = ''t'', sequence = Some ''ACGT''\<rparr>] (99 / 100) 6000 ''aux''
      = (Inr [(''A_t'', 0), (''B_u'', 0)], fs_clustered)"
    unfolding r by (rule conjunct2)
  from files eq val show ?thesis by blast
qed


subsection \<open>A second run of the alignment strategy\<close>

lemma replace_length:
  "length (replace old new s) + occurrences old s * length old
     = length s + occurrences old s * length new"
proof (induction old new s rule: replace.induct)
  case (1 old new s)
  show ?case
  proof (cases "s = [] \<or> old = []")
    case True
    then show ?thesis by (simp add: replace.simps [of old new s] occurrences.simps [of old s])
  next
    case False
    show ?thesis
    proof (cases "take (length old) s = old")
      case True
      then have "length old = length (take (length old) s)" by simp
      then have "length old \<le> length s" by simp
      with 1(1) [OF False True] False True show ?thesis
        by (simp add: replace.simps [of old new s] occurrences.simps [of old s])
    next
      case no: False
      from False obtain c cs where s: "s = c # cs" by (cases s) auto
      have r: "replace old new s = c # replace old new cs"
        using False no by (subst replace.simps) (simp add: s)
      have o: "occurrences old s = occurrences old cs"
        using False no by (subst occurrences.simps) (simp add: s)
      from 1(2) [OF False no] show ?thesis
        unfolding r o by (simp add: s)
    qed
  qed
qed

lemma replace_unchanged: "occurrences old s = 0 \<Longrightarrow> replace old new s = s"
proof (induction old new s rule: replace.induct)
  case (1 old new s)
  show ?case
  proof (cases "s = [] \<or> old = []")
    case True
    then show ?thesis by (simp add: replace.simps [of old new s])
  next
    case False
    show ?thesis
    proof (cases "take (length old) s = old")
      case True
      with False 1(3) show ?thesis by (simp add: occurrences.simps [of old s])
    next
      case no: False
      with False 1(3) have "occurrences old (tl s) = 0"
        by (simp add: occurrences.simps [of old s])
      from 1(2) [OF False no this] False no show ?thesis
        by (simp add: replace.simps [of old new s])
    qed
  qed
qed

lemma log_path_eq_output_path:
  assumes "replace ''.fasta'' ''.log'' p = replace ''.'' ''_aligned.'' p"
  shows "replace ''.'' ''_aligned.'' p = p"
proof -
  from replace_length [of "''.fasta''" "''.log''" p]
  have a: "length (replace ''.fasta'' ''.log'' p) + occurrences ''.fasta'' p * 6
             = length p + occurrences ''.fasta'' p * 4" by simp
  from replace_length [of "''.''" "''_aligned.''" p]
  have b: "length (replace ''.'' ''_aligned.'' p) + occurrences ''.'' p
             = length p + occurrences ''.'' p * 9" by simp
  from a b assms have "occurrences ''.'' p = 0" by simp
  then show ?thesis by (rule replace_unchanged)
qed

lemma log_path_eq_input_path:
  assumes "replace ''.fasta'' ''.log'' p = p"
  shows "replace ''.fasta'' ''_similarity_values.csv'' p = p"
proof -
  from replace_length [of "''.fasta''" "''.log''" p] assms
  have "occurrences ''.fasta'' p = 0" by simp
  then show ?thesis by (rule replace_unchanged)
qed

lemma similarity_values_result:
  assumes "similarity_values N fs p out = (Inr stats, fs')"
  shows "\<exists>table. fs' (replace ''.fasta'' ''_similarity_values.csv'' p) = Some (Csv table)
           \<and> (stats = similarity_statistics N (map similarity table)
                \<or> stats = similarity_statistics N (read_csv_similarity N table))
           \<and> (\<forall>q. q \<noteq> replace ''.fasta'' ''_similarity_values.csv'' p \<longrightarrow> fs' q = fs q)
           \<and> (fs (replace ''.fasta'' ''_similarity_values.csv'' p) = None \<longrightarrow> fs out \<noteq> None)"
  using assms
  by (auto simp add: similarity_values_def Let_def SeqIO_parse_def
      split: option.splits sum.splits content.splits)

lemma similarity_values_reuse:
  assumes "fs (replace ''.fasta'' ''_similarity_values.csv'' p) = Some (Csv table)"
  shows "similarity_values N fs p out
           = (Inr (similarity_statistics N (read_csv_similarity N table)), fs)"
  using assms by (simp add: similarity_values_def Let_def)

lemma multiple_alignment_reuse:
  assumes "fs p \<noteq> None" and "fs (replace ''.'' ''_aligned.'' p) \<noteq> None"
      and "fs (replace ''.fasta'' ''_similarity_values.csv'' p) = Some (Csv table)"
  shows "get_sequence_similarity_with_multiple_alignment N ext fs p
           = (Inr (similarity_statistics N (read_csv_similarity N table)), fs)"
  using assms
  by (auto simp add: get_sequence_similarity_with_multiple_alignment_def Let_def
      similarity_values_reuse)


text \<open>
  Claim C8, as amended. Let a first run of
  \<open>get_sequence_similarity_with_multiple_alignment\<close> on a sequence path return its
  statistics (the input exists, and the alignment is there or \<open>mafft\<close> succeeds and keeps
  its input). Then the similarity table is persisted at the derived path
  \<open>_similarity_values.csv\<close>, and a second run on the same path finds it and reuses it: it
  changes no file, so the table is byte-identical, and it returns the statistics of the
  values read back from the table. These are the statistics of the first run whenever
  every value of the table is read back as it was written.
\<close>

theorem multiple_alignment_second_run:
  assumes input: "fs p \<noteq> None"
      and mafft: "fs (replace ''.'' ''_aligned.'' p) = None \<longrightarrow>
                    fst (os_system ext (Mafft p (replace ''.'' ''_aligned.'' p)) fs) = 0
                    \<and> snd (os_system ext (Mafft p (replace ''.'' ''_aligned.'' p)) fs) p \<noteq> None"
      and run: "get_sequence_similarity_with_multiple_alignment N ext fs p = (Inr stats, fs1)"
  shows "\<exists>table. fs1 (replace ''.fasta'' ''_similarity_values.csv'' p) = Some (Csv table)
           \<and> get_sequence_similarity_with_multiple_alignment N ext fs1 p
               = (Inr (similarity_statistics N (read_csv_similarity N table)), fs1)
           \<and> (read_csv_similarity N table = map similarity table \<longrightarrow>
                get_sequence_similarity_with_multiple_alignment N ext fs1 p = (Inr stats, fs1))"
proof -
  define out where "out = replace ''.'' ''_aligned.'' p"
  define log_path where "log_path = replace ''.fasta'' ''.log'' p"
  define sim where "sim = replace ''.fasta'' ''_similarity_values.csv'' p"
  have "\<exists>fs'. similarity_values N fs' p out = (Inr stats, fs1)
              \<and> fs' out \<noteq> None \<and> (p \<noteq> sim \<longrightarrow> fs' p \<noteq> None)"
  proof (cases "fs out = None")
    case False
    with input run have "similarity_values N fs p out = (Inr stats, fs1)"
      by (auto simp add: get_sequence_similarity_with_multiple_alignment_def Let_def out_def)
    with False input show ?thesis by blast
  next
    case True
    obtain res fsm where sys: "os_system ext (Mafft p out) fs = (res, fsm)"
      by (cases "os_system ext (Mafft p out) fs")
    with mafft True have res: "res = 0" and kept: "fsm p \<noteq> None"
      by (simp_all add: out_def)
    define fs' where "fs' = (if fsm log_path \<noteq> None then fsm(log_path := None) else fsm)"
    from run input True sys res
    have made: "fsm out \<noteq> None" and sv: "similarity_values N fs' p out = (Inr stats, fs1)"
      by (auto simp add: get_sequence_similarity_with_multiple_alignment_def Let_def
          out_def [symmetric] log_path_def [symmetric] fs'_def split: sum.splits if_splits)
    have "log_path \<noteq> out"
    proof
      assume "log_path = out"
      then have "out = p"
        unfolding log_path_def out_def by (rule log_path_eq_output_path)
      with True input show False by simp
    qed
    with made have o: "fs' out \<noteq> None" by (simp add: fs'_def)
    have "fs' p \<noteq> None" if "p \<noteq> sim"
    proof -
      have "log_path \<noteq> p"
      proof
        assume "log_path = p"
        then have "sim = p"
          unfolding log_path_def sim_def by (rule log_path_eq_input_path)
        with that show False by simp
      qed
      with kept show ?thesis by (simp add: fs'_def)
    qed
    with sv o show ?thesis by blast
  qed
  then obtain fs' where sv: "similarity_values N fs' p out = (Inr stats, fs1)"
    and o: "fs' out \<noteq> None" and i: "p \<noteq> sim \<longrightarrow> fs' p \<noteq> None"
    by blast
  from similarity_values_result [OF sv] obtain table where
    t: "fs1 sim = Some (Csv table)"
    and st: "stats = similarity_statistics N (map similarity table)
             \<or> stats = similarity_statistics N (read_csv_similarity N table)"
    and frame: "\<forall>q. q \<noteq> sim \<longrightarrow> fs1 q = fs' q"
    unfolding sim_def by blast
  have p1: "fs1 p \<noteq> None"
    using t i frame by (cases "p = sim") auto
  have o1: "fs1 out \<noteq> None"
    using t o frame by (cases "out = sim") auto
  note second = multiple_alignment_reuse [OF p1 o1 [unfolded out_def] t [unfolded sim_def],
      of N ext]
  from st have "read_csv_similarity N table = map similarity table \<longrightarrow>
      stats = similarity_statistics N (read_csv_similarity N table)"
    by auto
  with second t show ?thesis
    unfolding sim_def by (intro exI [of _ table]) simp
qed


lemma sample_paths:
  "replace ''.'' ''_aligned.'' ''s.fasta'' = ''s_aligned.fasta''"
  "replace ''.fasta'' ''.log'' ''s.fasta'' = ''s.log''"
  "replace ''.fasta'' ''_similarity_values.csv'' ''s.fasta'' = ''s_similarity_values.csv''"
  "replace ''.'' ''_aligned.'' ''t.fasta'' = ''t_aligned.fasta''"
  "replace ''.fasta'' ''.log'' ''t.fasta'' = ''t.log''"
  "replace ''.fasta'' ''_similarity_values.csv'' ''t.fasta'' = ''t_similarity_values.csv''"
  by (simp_all add: replace.simps)

lemma sample_table: "pair_to_similarity exact_numerics
      [\<lparr>rec_id = ''a'', rec_seq = ''ACGT''\<rparr>, \<lparr>rec_id = ''b'', rec_seq = ''AC-A''\<rparr>]
    = Inr [\<lparr>accession_1 = ''a'', accession_2 = ''a'', similarity = Fin 1\<rparr>,
          \<lparr>accession_1 = ''a'', accession_2 = ''b'', similarity = Fin (1 / 2)\<rparr>,
          \<lparr>accession_1 = ''b'', accession_2 = ''a'', similarity = Fin (1 / 2)\<rparr>,
          \<lparr>accession_1 = ''b'', accession_2 = ''b'', similarity = Fin 1\<rparr>]"
  by (simp add: pair_to_similarity_def seq_map_def compute_similarity_across_aligned_sequences_def
      distance_hamming_def exact_numerics_def)

lemma sample_statistics: "similarity_statistics exact_numerics [Fin 1, Fin (1 / 2), Fin (1 / 2), Fin 1]
     = [Fin (3 / 4), Fin (1 / 2), Fin 1, Fin (3 / 4)]"
  by (simp add: similarity_statistics_def summary_of_series_def exact_numerics_def mean_def
      median_def)

lemma sample_first_run:
  "get_sequence_similarity_with_multiple_alignment exact_numerics sample_tools
     [''s.fasta'' \<mapsto> two_sequences] ''s.fasta''
     = (Inr [Fin (3 / 4), Fin (1 / 2), Fin 1, Fin (3 / 4)], fs_one_run)"
  by (simp add: get_sequence_similarity_with_multiple_alignment_def sample_paths sample_tools_def
      SeqIO_parse_def two_sequences_def similarity_values_def sample_table sample_statistics
      fs_one_run_def)


theorem multiple_alignment_second_run_witness:
  "[''s.fasta'' \<mapsto> two_sequences] ''s.fasta'' \<noteq> None
   \<and> fst (os_system sample_tools (Mafft ''s.fasta'' (replace ''.'' ''_aligned.'' ''s.fasta''))
            [''s.fasta'' \<mapsto> two_sequences]) = 0
   \<and> snd (os_system sample_tools (Mafft ''s.fasta'' (replace ''.'' ''_aligned.'' ''s.fasta''))
            [''s.fasta'' \<mapsto> two_sequences]) ''s.fasta'' \<noteq> None
   \<and> get_sequence_similarity_with_multiple_alignment exact_numerics sample_tools
        [''s.fasta'' \<mapsto> two_sequences] ''s.fasta''
        = (Inr [Fin (3 / 4), Fin (1 / 2), Fin 1, Fin (3 / 4)], fs_one_run)
   \<and> fs_one_run ''s_similarity_values.csv'' \<noteq> None
   \<and> get_sequence_similarity_with_multiple_alignment exact_numerics sample_tools fs_one_run
        ''s.fasta''
        = (Inr [Fin (3 / 4), Fin (1 / 2), Fin 1, Fin (3 / 4)], fs_one_run)"
proof -
  have input: "[''s.fasta'' \<mapsto> two_sequences] ''s.fasta'' \<noteq> None"
    by simp
  have mafft: "fst (os_system sample_tools (Mafft ''s.fasta'' (replace ''.'' ''_aligned.'' ''s.fasta''))
                 [''s.fasta'' \<mapsto> two_sequences]) = 0
     \<and> snd (os_system sample_tools (Mafft ''s.fasta'' (replace ''.'' ''_aligned.'' ''s.fasta''))
            [''s.fasta'' \<mapsto> two_sequences]) ''s.fasta'' \<noteq> None"
    by (simp add: sample_tools_def sample_paths)
  have table: "fs_one_run ''s_similarity_values.csv'' \<noteq> None"
    by (simp add: fs_one_run_def)
  have exact: "read_csv_similarity exact_numerics t = map similarity t" for t
  proof -
    have "read_back exact_numerics v = v" for v
      by (cases v) (simp_all add: exact_numerics_def)
    then show ?thesis by (simp add: read_csv_similarity_def)
  qed
  from multiple_alignment_second_run [OF input _ sample_first_run] mafft exact
  have "get_sequence_similarity_with_multiple_alignment exact_numerics sample_tools fs_one_run
          ''s.fasta''
        = (Inr [Fin (3 / 4), Fin (1 / 2), Fin 1, Fin (3 / 4)], fs_one_run)"
    by blast
  with input mafft table sample_first_run show ?thesis by blast
qed

lemma thirds_table: "pair_to_similarity thirds_numerics
      [\<lparr>rec_id = ''a'', rec_seq = ''AAA''\<rparr>, \<lparr>rec_id = ''b'', rec_seq = ''CCA''\<rparr>]
    = Inr [\<lparr>accession_1 = ''a'', accession_2 = ''a'', similarity = Fin 1\<rparr>,
          \<lparr>accession_1 = ''a'', accession_2 = ''b'',
           similarity = Fin (6004799503160662 / 2 ^ 54)\<rparr>,
          \<lparr>accession_1 = ''b'', accession_2 = ''a'',
           similarity = Fin (6004799503160662 / 2 ^ 54)\<rparr>,
          \<lparr>accession_1 = ''b'', accession_2 = ''b'', similarity = Fin 1\<rparr>]"
  by (simp add: pair_to_similarity_def seq_map_def compute_similarity_across_aligned_sequences_def
      distance_hamming_def thirds_numerics_def exact_numerics_def)

lemma thirds_first_run:
  "get_sequence_similarity_with_multiple_alignment thirds_numerics sample_tools
     [''t.fasta'' \<mapsto> three_bases] ''t.fasta''
     = (Inr (similarity_statistics thirds_numerics
               [Fin 1, Fin (6004799503160662 / 2 ^ 54), Fin (6004799503160662 / 2 ^ 54), Fin 1]),
        fs_thirds_run)"
  by (simp add: get_sequence_similarity_with_multiple_alignment_def sample_paths sample_tools_def
      SeqIO_parse_def three_bases_def similarity_values_def thirds_table fs_thirds_run_def)

lemma thirds_second_run:
  "get_sequence_similarity_with_multiple_alignment thirds_numerics sample_tools
     fs_thirds_run ''t.fasta''
     = (Inr (similarity_statistics thirds_numerics
               [Fin 1, Fin (6004799503160661 / 2 ^ 54), Fin (6004799503160661 / 2 ^ 54), Fin 1]),
        fs_thirds_run)"
  by (simp add: get_sequence_similarity_with_multiple_alignment_def sample_paths
      similarity_values_def fs_thirds_run_def read_csv_similarity_def thirds_numerics_def
      exact_numerics_def)

lemma thirds_minimum:
  "similarity_statistics thirds_numerics
     [Fin 1, Fin (6004799503160662 / 2 ^ 54), Fin (6004799503160662 / 2 ^ 54), Fin 1] ! 1
     = Fin (6004799503160662 / 2 ^ 54)"
  "similarity_statistics thirds_numerics
     [Fin 1, Fin (6004799503160661 / 2 ^ 54), Fin (6004799503160661 / 2 ^ 54), Fin 1] ! 1
     = Fin (6004799503160661 / 2 ^ 54)"
  by (simp_all add: similarity_statistics_def summary_of_series_def Let_def)


text \<open>
  The claim as stated fails where a value is not read back as it was written: on the
  sequences \<open>AAA\<close> and \<open>CCA\<close> the first run returns the minimum
  \<open>0.33333333333333337\<close> and the second, from the same unchanged table, the minimum
  \<open>0.3333333333333333\<close>.
\<close>

theorem multiple_alignment_read_back_counterexample:
  "snd (get_sequence_similarity_with_multiple_alignment thirds_numerics sample_tools
          [''t.fasta'' \<mapsto> three_bases] ''t.fasta'') = fs_thirds_run
   \<and> snd (get_sequence_similarity_with_multiple_alignment thirds_numerics sample_tools
          fs_thirds_run ''t.fasta'') = fs_thirds_run
   \<and> map_sum id (\<lambda>stats. stats ! 1)
        (fst (get_sequence_similarity_with_multiple_alignment thirds_numerics sample_tools
                [''t.fasta'' \<mapsto> three_bases] ''t.fasta''))
       = Inr (Fin (6004799503160662 / 2 ^ 54))
   \<and> map_sum id (\<lambda>stats. stats ! 1)
        (fst (get_sequence_similarity_with_multiple_alignment thirds_numerics sample_tools
                fs_thirds_run ''t.fasta''))
       = Inr (Fin (6004799503160661 / 2 ^ 54))
   \<and> fst (get_sequence_similarity_with_multiple_alignment thirds_numerics sample_tools
           fs_thirds_run ''t.fasta'')
       \<noteq> fst (get_sequence_similarity_with_multiple_alignment thirds_numerics sample_tools
                [''t.fasta'' \<mapsto> three_bases] ''t.fasta'')"
proof -
  define s1 where "s1 = similarity_statistics thirds_numerics
     [Fin 1, Fin (6004799503160662 / 2 ^ 54), Fin (6004799503160662 / 2 ^ 54), Fin 1]"
  define s2 where "s2 = similarity_statistics thirds_numerics
     [Fin 1, Fin (6004799503160661 / 2 ^ 54), Fin (6004799503160661 / 2 ^ 54), Fin 1]"
  have m1: "s1 ! 1 = Fin (6004799503160662 / 2 ^ 54)"
    unfolding s1_def by (rule thirds_minimum(1))
  have m2: "s2 ! 1 = Fin (6004799503160661 / 2 ^ 54)"
    unfolding s2_def by (rule thirds_minimum(2))
  have ne: "s2 \<noteq> s1"
  proof
    assume "s2 = s1"
    then have "s2 ! 1 = s1 ! 1" by simp
    then show False unfolding m1 m2 by simp
  qed
  have r1: "get_sequence_similarity_with_multiple_alignment thirds_numerics sample_tools
     [''t.fasta'' \<mapsto> three_bases] ''t.fasta'' = (Inr s1, fs_thirds_run)"
    unfolding s1_def by (rule thirds_first_run)
  have r2: "get_sequence_similarity_with_multiple_alignment thirds_numerics sample_tools
     fs_thirds_run ''t.fasta'' = (Inr s2, fs_thirds_run)"
    unfolding s2_def by (rule thirds_second_run)
  show ?thesis
    unfolding r1 r2 using m1 m2 ne by simp
qed

end
